theory Spec2Isabelle
  imports Main "HOL-Library.Word"
begin

unbundle bit_operations_syntax

section \<open>MOS-DEF: selector resolution, batch rotation and rollback\<close>

text \<open>
  A shallow embedding of the C sources \<^verbatim>\<open>rotate.c\<close>, \<^verbatim>\<open>util.c\<close> and the rotation
  part of \<^verbatim>\<open>cli.c\<close>. A \<^verbatim>\<open>DWORD\<close> is a 32-bit word, a \<^verbatim>\<open>LONG\<close> result code is an
  \<open>int\<close> (the sources only compare result codes, they never compute with them), a C
  string is a \<open>string\<close> without the terminating NUL and a pointer that may be \<^verbatim>\<open>NULL\<close>
  is an \<open>option\<close>. Allocation (\<^verbatim>\<open>malloc\<close>, \<^verbatim>\<open>_strdup\<close>) is taken to succeed.
\<close>

type_synonym DWORD = "32 word"
type_synonym LONG = int

subsection \<open>Constants of the Windows headers\<close>

text \<open>
  Modelled from the spec: the header \<^verbatim>\<open>windows.h\<close> is not among the sources. The
  orientations 0, 90, 180 and 270 degrees of the spec are the header's
  \<^verbatim>\<open>DMDO_DEFAULT\<close>, \<^verbatim>\<open>DMDO_90\<close>, \<^verbatim>\<open>DMDO_180\<close> and \<^verbatim>\<open>DMDO_270\<close> (as
  \<^verbatim>\<open>get_orientation_string\<close> of \<^verbatim>\<open>enum.c\<close> prints them); the numbers are those of
  the Windows SDK.
\<close>

definition DMDO_DEFAULT :: DWORD where "DMDO_DEFAULT = 0"
definition DMDO_90 :: DWORD where "DMDO_90 = 1"
definition DMDO_180 :: DWORD where "DMDO_180 = 2"
definition DMDO_270 :: DWORD where "DMDO_270 = 3"

definition DM_DISPLAYORIENTATION :: DWORD where "DM_DISPLAYORIENTATION = 0x80"
definition DM_PELSWIDTH :: DWORD where "DM_PELSWIDTH = 0x80000"
definition DM_PELSHEIGHT :: DWORD where "DM_PELSHEIGHT = 0x100000"

definition DISP_CHANGE_SUCCESSFUL :: LONG where "DISP_CHANGE_SUCCESSFUL = 0"
definition DISP_CHANGE_RESTART :: LONG where "DISP_CHANGE_RESTART = 1"
definition DISP_CHANGE_FAILED :: LONG where "DISP_CHANGE_FAILED = - 1"
definition DISP_CHANGE_BADMODE :: LONG where "DISP_CHANGE_BADMODE = - 2"
definition DISP_CHANGE_NOTUPDATED :: LONG where "DISP_CHANGE_NOTUPDATED = - 3"
definition DISP_CHANGE_BADFLAGS :: LONG where "DISP_CHANGE_BADFLAGS = - 4"
definition DISP_CHANGE_BADPARAM :: LONG where "DISP_CHANGE_BADPARAM = - 5"
definition DISP_CHANGE_BADDUALVIEW :: LONG where "DISP_CHANGE_BADDUALVIEW = - 6"

text \<open>The degrees an orientation code stands for (\<^verbatim>\<open>get_orientation_string\<close>, \<^verbatim>\<open>enum.c\<close>).\<close>

definition orientation_degrees :: "DWORD \<Rightarrow> nat" where
  "orientation_degrees orientation =
     (if orientation = DMDO_DEFAULT then 0
      else if orientation = DMDO_90 then 90
      else if orientation = DMDO_180 then 180
      else if orientation = DMDO_270 then 270
      else unat orientation)"

subsection \<open>Rotation engine (\<^verbatim>\<open>rotate.c\<close>, orientation utilities)\<close>

datatype RotationCommand = ROTATION_LANDSCAPE | ROTATION_PORTRAIT | ROTATION_TOGGLE

fun get_target_orientation :: "DWORD \<Rightarrow> RotationCommand \<Rightarrow> DWORD" where
  "get_target_orientation current_orientation ROTATION_LANDSCAPE = DMDO_DEFAULT"
| "get_target_orientation current_orientation ROTATION_PORTRAIT = DMDO_90"
| "get_target_orientation current_orientation ROTATION_TOGGLE =
     (if current_orientation = DMDO_DEFAULT then DMDO_90 else DMDO_DEFAULT)"

definition should_swap_dimensions :: "DWORD \<Rightarrow> DWORD \<Rightarrow> bool" where
  "should_swap_dimensions from_orientation to_orientation =
     (let from_is_portrait = (from_orientation = DMDO_90 \<or> from_orientation = DMDO_270);
          to_is_portrait = (to_orientation = DMDO_90 \<or> to_orientation = DMDO_270)
      in from_is_portrait \<noteq> to_is_portrait)"

subsection \<open>String utilities (\<^verbatim>\<open>util.c\<close>)\<close>

text \<open>
  The C library's character classes in the "C" locale. The double quote character is
  written \<open>CHR 0x22\<close>.
\<close>

definition isspace :: "char \<Rightarrow> bool" where
  "isspace c = (c \<in> set [CHR 0x20, CHR 0x09, CHR 0x0A, CHR 0x0B, CHR 0x0C, CHR 0x0D])"

definition isdigit :: "char \<Rightarrow> bool" where
  "isdigit c = (c \<in> set ''0123456789'')"

definition tolower :: "char \<Rightarrow> char" where
  "tolower c =
     (case map_of (zip ''ABCDEFGHIJKLMNOPQRSTUVWXYZ'' ''abcdefghijklmnopqrstuvwxyz'') c of
        Some l \<Rightarrow> l
      | None \<Rightarrow> c)"

text \<open>\<^verbatim>\<open>strncmp(str, prefix, strlen(prefix)) == 0\<close>\<close>

definition str_starts_with :: "string \<Rightarrow> string \<Rightarrow> bool" where
  "str_starts_with str prefix = (take (length prefix) str = prefix)"

text \<open>\<^verbatim>\<open>strstr(str, substring) != NULL\<close>\<close>

fun str_contains :: "string \<Rightarrow> string \<Rightarrow> bool" where
  "str_contains [] substring = (substring = [])"
| "str_contains (c # cs) substring =
     (str_starts_with (c # cs) substring \<or> str_contains cs substring)"

text \<open>
  \<^verbatim>\<open>str_trim\<close> skips the leading white space and then cuts the trailing white space
  (the second loop stops at the first character, which is not a space after the first
  loop, or does not run on an empty rest).
\<close>

definition str_trim :: "string \<Rightarrow> string" where
  "str_trim str = (let str' = dropWhile isspace str in rev (dropWhile isspace (rev str')))"

definition str_to_lower :: "string \<Rightarrow> string" where
  "str_to_lower str = map tolower str"

text \<open>
  The successive results of \<^verbatim>\<open>strtok\<close> with a one-character delimiter: the maximal
  non-empty runs of characters other than the delimiter.
\<close>

function strtok_all :: "char \<Rightarrow> string \<Rightarrow> string list" where
  "strtok_all delim str =
     (let rest = dropWhile (\<lambda>c. c = delim) str
      in if rest = [] then []
         else takeWhile (\<lambda>c. c \<noteq> delim) rest
              # strtok_all delim (dropWhile (\<lambda>c. c \<noteq> delim) rest))"
  by pat_completeness auto
termination
proof (relation "measure (\<lambda>(delim, str). length str)")
  show "wf (measure (\<lambda>(delim, str). length str))"
    by simp
next
  fix delim :: char and str rest :: string
  assume rest: "rest = dropWhile (\<lambda>c. c = delim) str" and ne: "rest \<noteq> []"
  have "hd rest \<noteq> delim"
    using ne hd_dropWhile [of "\<lambda>c. c = delim" str] by (simp add: rest)
  then have "length (dropWhile (\<lambda>c. c \<noteq> delim) rest) < length rest"
    using ne by (cases rest) (simp_all add: length_dropWhile_le le_imp_less_Suc)
  also have "length rest \<le> length str"
    by (simp add: rest length_dropWhile_le)
  finally show "((delim, dropWhile (\<lambda>c. c \<noteq> delim) rest), (delim, str))
      \<in> measure (\<lambda>(delim, str). length str)"
    by simp
qed

declare strtok_all.simps [simp del]

text \<open>
  \<^verbatim>\<open>str_split(str, delim, &result, &count)\<close>, for the one-character delimiter of its
  only call. The array has one slot per occurrence of the delimiter plus one; the
  tokens of \<^verbatim>\<open>strtok\<close>, trimmed, fill the first slots, and the slots beyond the last
  token are never written: \<open>None\<close> is such a slot of uninitialised memory. The
  model returns the array, whose length is \<^verbatim>\<open>*count\<close>.
\<close>

definition str_split :: "string \<Rightarrow> char \<Rightarrow> string option list" where
  "str_split str delim =
     (let count = length (filter (\<lambda>c. c = delim) str) + 1;
          tokens = take count (strtok_all delim str)
      in map (\<lambda>token. Some (str_trim token)) tokens @ replicate (count - length tokens) None)"

subsection \<open>Selectors (\<^verbatim>\<open>util.h\<close>, \<^verbatim>\<open>util.c\<close>)\<close>

datatype SelectorType =
  SELECTOR_TYPE_MONITOR_ID | SELECTOR_TYPE_DEVICE_PATH | SELECTOR_TYPE_DEVICE_NAME

text \<open>The fields \<^verbatim>\<open>type\<close> and \<^verbatim>\<open>value\<close> of the struct \<^verbatim>\<open>Selector\<close>.\<close>

record Selector =
  sel_type :: SelectorType
  sel_value :: string

text \<open>The index of the last occurrence of a character (\<^verbatim>\<open>strrchr\<close>), if there is one.\<close>

definition strrchr :: "string \<Rightarrow> char \<Rightarrow> nat option" where
  "strrchr str c =
     (if c \<in> set str then Some (length str - 1 - length (takeWhile (\<lambda>x. x \<noteq> c) (rev str)))
      else None)"

text \<open>
  \<^verbatim>\<open>parse_selector\<close>: \<open>None\<close> is the \<^verbatim>\<open>NULL\<close> it returns for a \<^verbatim>\<open>NULL\<close> argument and
  for a \<^verbatim>\<open>device:"\<close> or \<^verbatim>\<open>name:"\<close> selector without a closing quote.
\<close>

definition parse_selector :: "string option \<Rightarrow> Selector option" where
  "parse_selector selector_str =
     (case selector_str of
        None \<Rightarrow> None
      | Some s \<Rightarrow>
          if (case s of c0 # c1 # _ \<Rightarrow> c0 = CHR ''M'' \<and> isdigit c1 | _ \<Rightarrow> False)
          then Some \<lparr>sel_type = SELECTOR_TYPE_MONITOR_ID, sel_value = s\<rparr>
          else if str_starts_with s (''device:'' @ [CHR 0x22])
          then (let start = drop 8 s
                in case strrchr start (CHR 0x22) of
                     Some len \<Rightarrow>
                       Some \<lparr>sel_type = SELECTOR_TYPE_DEVICE_PATH, sel_value = take len start\<rparr>
                   | None \<Rightarrow> None)
          else if str_starts_with s (''name:'' @ [CHR 0x22])
          then (let start = drop 6 s
                in case strrchr start (CHR 0x22) of
                     Some len \<Rightarrow>
                       Some \<lparr>sel_type = SELECTOR_TYPE_DEVICE_NAME, sel_value = take len start\<rparr>
                   | None \<Rightarrow> None)
          else Some \<lparr>sel_type = SELECTOR_TYPE_MONITOR_ID, sel_value = s\<rparr>)"

text \<open>
  Reading a slot of the array that \<^verbatim>\<open>str_split\<close> never wrote is undefined behaviour
  in C; the model stops there with a fault.
\<close>

datatype fault = UninitialisedRead

text \<open>
  The loop of \<^verbatim>\<open>parse_selector_list\<close> over the parts: a part that
  \<^verbatim>\<open>parse_selector\<close> rejects is skipped, the others are collected in order.
\<close>

fun parse_parts :: "string option list \<Rightarrow> fault + Selector list" where
  "parse_parts [] = Inr []"
| "parse_parts (None # parts) = Inl UninitialisedRead"
| "parse_parts (Some part # parts) =
     (case parse_parts parts of
        Inl f \<Rightarrow> Inl f
      | Inr sels \<Rightarrow>
          (case parse_selector (Some part) of
             Some sel \<Rightarrow> Inr (sel # sels)
           | None \<Rightarrow> Inr sels))"

text \<open>
  \<^verbatim>\<open>parse_selector_list\<close>: \<open>Inr None\<close> is the \<^verbatim>\<open>NULL\<close> it returns, for a \<^verbatim>\<open>NULL\<close>
  argument and when no part gave a selector.
\<close>

definition parse_selector_list :: "string option \<Rightarrow> fault + Selector list option" where
  "parse_selector_list selector_list_str =
     (case selector_list_str of
        None \<Rightarrow> Inr None
      | Some str \<Rightarrow>
          (case parse_parts (str_split str (CHR '','')) of
             Inl f \<Rightarrow> Inl f
           | Inr sels \<Rightarrow> if sels = [] then Inr None else Inr (Some sels)))"

text \<open>
  \<^verbatim>\<open>matches_monitor\<close>; a selector of the model always has a value, so only the
  \<^verbatim>\<open>NULL\<close> selector is left of the first check.
\<close>

definition matches_monitor :: "Selector option \<Rightarrow> string \<Rightarrow> string \<Rightarrow> string \<Rightarrow> bool" where
  "matches_monitor selector monitor_id device_path device_name =
     (case selector of
        None \<Rightarrow> False
      | Some sel \<Rightarrow>
          (case sel_type sel of
             SELECTOR_TYPE_MONITOR_ID \<Rightarrow> monitor_id = sel_value sel
           | SELECTOR_TYPE_DEVICE_PATH \<Rightarrow> device_path = sel_value sel
           | SELECTOR_TYPE_DEVICE_NAME \<Rightarrow>
               str_contains (str_to_lower device_name) (str_to_lower (sel_value sel))))"

subsection \<open>The operating system and the console\<close>

text \<open>
  The fields of \<^verbatim>\<open>DEVMODEA\<close> that the sources read or write; the others are copied
  along unchanged.
\<close>

record devmode =
  dmFields :: DWORD
  dmDisplayOrientation :: DWORD
  dmPelsWidth :: DWORD
  dmPelsHeight :: DWORD

text \<open>
  The external calls are parameters of the model. The state \<open>'s\<close> of the operating
  system is arbitrary, and every call may change it, a read of the current settings as
  well (displays come and go while the command runs):
  \<^item> \<open>EnumDisplaySettingsExA path\<close> is the call with \<^verbatim>\<open>ENUM_CURRENT_SETTINGS\<close>; \<open>None\<close>
    is the result \<^verbatim>\<open>FALSE\<close>;
  \<^item> \<open>ChangeDisplaySettingsExA path dm\<close> is the call with
    \<^verbatim>\<open>CDS_UPDATEREGISTRY | CDS_GLOBAL\<close>, and returns the result code;
  \<^item> \<open>getch\<close> is the blocking \<^verbatim>\<open>_getch()\<close>;
  \<^item> \<open>wait_key\<close> is the inner loop of \<^verbatim>\<open>start_revert_timer\<close>, which polls
    \<^verbatim>\<open>_kbhit()\<close> for one second of \<^verbatim>\<open>clock()\<close>: the key read by \<^verbatim>\<open>_getch()\<close> if one
    arrived within the second, \<open>None\<close> if the second passed without one.
\<close>

record 's winapi =
  EnumDisplaySettingsExA :: "string \<Rightarrow> 's \<Rightarrow> devmode option \<times> 's"
  ChangeDisplaySettingsExA :: "string \<Rightarrow> devmode \<Rightarrow> 's \<Rightarrow> LONG \<times> 's"
  getch :: "'s \<Rightarrow> int \<times> 's"
  wait_key :: "'s \<Rightarrow> int option \<times> 's"

text \<open>An argument of a \<^verbatim>\<open>log_error\<close> format string.\<close>

datatype log_arg = Str string | Num int

record MosDefConfig =
  default_selector :: "string option"
  last_action :: "string option"

text \<open>
  What the program has done so far, next to the state of the operating system: the
  calls of \<^verbatim>\<open>ChangeDisplaySettingsExA\<close> with their device path and settings, the lines
  of \<^verbatim>\<open>log_error\<close> (format string and arguments) and the configurations handed to
  \<^verbatim>\<open>save_config\<close>, each oldest first. Standard output is not modelled.
\<close>

record 's world =
  os :: 's
  changes :: "(string \<times> devmode) list"
  errors :: "(string \<times> log_arg list) list"
  saved :: "MosDefConfig list"

definition log_error :: "string \<Rightarrow> log_arg list \<Rightarrow> 's world \<Rightarrow> 's world" where
  "log_error format args w = w\<lparr>errors := errors w @ [(format, args)]\<rparr>"

definition enum_current_settings ::
  "'s winapi \<Rightarrow> string \<Rightarrow> 's world \<Rightarrow> devmode option \<times> 's world" where
  "enum_current_settings api path w =
     (case EnumDisplaySettingsExA api path (os w) of (r, s) \<Rightarrow> (r, w\<lparr>os := s\<rparr>))"

definition change_display_settings ::
  "'s winapi \<Rightarrow> string \<Rightarrow> devmode \<Rightarrow> 's world \<Rightarrow> LONG \<times> 's world" where
  "change_display_settings api path dm w =
     (case ChangeDisplaySettingsExA api path dm (os w) of
        (rc, s) \<Rightarrow> (rc, w\<lparr>os := s, changes := changes w @ [(path, dm)]\<rparr>))"

subsection \<open>Monitors (\<^verbatim>\<open>enum.h\<close>)\<close>

text \<open>
  \<^verbatim>\<open>enumerate_monitors\<close> gives the monitors the ids \<^verbatim>\<open>M1\<close>, \<^verbatim>\<open>M2\<close>, ... in the order of
  enumeration. The field \<^verbatim>\<open>id\<close> is \<open>monitor_id\<close> here.
\<close>

record MonitorInfo =
  monitor_id :: string
  device_name :: string
  device_path :: string
  width :: DWORD
  height :: DWORD
  orientation :: DWORD
  device_id :: string

subsection \<open>Rotation of one monitor (\<^verbatim>\<open>rotate.c\<close>)\<close>

record RotationResult =
  success :: bool
  error_code :: LONG
  old_orientation :: DWORD
  new_orientation :: DWORD

text \<open>The \<^verbatim>\<open>switch\<close> of \<^verbatim>\<open>rotate_monitor\<close> over a result code that is not a success.\<close>

definition change_error_text :: "LONG \<Rightarrow> string" where
  "change_error_text change_result =
     (if change_result = DISP_CHANGE_BADDUALVIEW
      then ''The settings change was unsuccessful because the system is DualView capable.''
      else if change_result = DISP_CHANGE_BADFLAGS
      then ''An invalid set of flags was passed in.''
      else if change_result = DISP_CHANGE_BADMODE
      then ''The graphics mode is not supported.''
      else if change_result = DISP_CHANGE_BADPARAM
      then ''An invalid parameter was passed in.''
      else if change_result = DISP_CHANGE_FAILED
      then ''The display driver failed the specified graphics mode.''
      else if change_result = DISP_CHANGE_NOTUPDATED
      then ''Unable to write settings to the registry.''
      else if change_result = DISP_CHANGE_RESTART
      then ''The computer must be restarted for the graphics mode to work.''
      else ''Unknown error occurred.'')"

text \<open>
  Lines 37 to 51 of \<^verbatim>\<open>rotate_monitor\<close>: the settings to apply, that is the current
  ones with the new orientation, and with width and height exchanged when the rotation
  crosses between landscape and portrait.
\<close>

definition new_devmode :: "devmode \<Rightarrow> DWORD \<Rightarrow> devmode" where
  "new_devmode dm new_orient =
     (let dm1 = dm\<lparr>dmDisplayOrientation := new_orient,
                    dmFields := dmFields dm OR DM_DISPLAYORIENTATION\<rparr>
      in if should_swap_dimensions (dmDisplayOrientation dm) new_orient
         then dm1\<lparr>dmPelsWidth := dmPelsHeight dm1, dmPelsHeight := dmPelsWidth dm1,
                   dmFields := dmFields dm1 OR (DM_PELSWIDTH OR DM_PELSHEIGHT)\<rparr>
         else dm1)"

definition rotate_monitor ::
  "'s winapi \<Rightarrow> MonitorInfo option \<Rightarrow> RotationCommand \<Rightarrow> bool \<Rightarrow> 's world
     \<Rightarrow> RotationResult \<times> 's world" where
  "rotate_monitor api monitor command dry_run w =
     (let result = \<lparr>success = False, error_code = 0, old_orientation = 0, new_orientation = 0\<rparr>
      in case monitor of
           None \<Rightarrow> (result\<lparr>error_code := DISP_CHANGE_BADPARAM\<rparr>, w)
         | Some m \<Rightarrow>
             (case enum_current_settings api (device_path m) w of
                (None, w1) \<Rightarrow> (result\<lparr>error_code := DISP_CHANGE_BADMODE\<rparr>, w1)
              | (Some dm, w1) \<Rightarrow>
                  (let result = result\<lparr>old_orientation := dmDisplayOrientation dm,
                         new_orientation :=
                           get_target_orientation (dmDisplayOrientation dm) command\<rparr>;
                       new_dm = new_devmode dm (new_orientation result)
                   in if dry_run then (result\<lparr>success := True\<rparr>, w1)
                      else
                        (case change_display_settings api (device_path m) new_dm w1 of
                           (change_result, w2) \<Rightarrow>
                             (let result = result\<lparr>error_code := change_result,
                                    success := (change_result = DISP_CHANGE_SUCCESSFUL)\<rparr>
                              in if success result then (result, w2)
                                 else (result,
                                   log_error (change_error_text change_result) []
                                     (log_error ''Failed to rotate monitor %s: error code %ld''
                                        [Str (monitor_id m), Num change_result] w2)))))))"

subsection \<open>Batch rotation (\<^verbatim>\<open>rotate.c\<close>)\<close>

text \<open>
  \<^verbatim>\<open>results\<close> is the array of the batch, one result per loop round. The \<^verbatim>\<open>NULL\<close>
  array of an empty batch is the empty list.
\<close>

record BatchRotationResult =
  success_count :: int
  failure_count :: int
  results :: "RotationResult list"

text \<open>An inner loop of the batch: does any selector of the list match the monitor?\<close>

fun any_selector_matches :: "Selector list \<Rightarrow> MonitorInfo \<Rightarrow> bool" where
  "any_selector_matches [] monitor = False"
| "any_selector_matches (sel # sels) monitor =
     (if matches_monitor (Some sel) (monitor_id monitor) (device_path monitor)
           (device_name monitor)
      then True
      else any_selector_matches sels monitor)"

text \<open>The value of \<^verbatim>\<open>should_process\<close> at line 149.\<close>

definition should_process ::
  "Selector list option \<Rightarrow> Selector list option \<Rightarrow> MonitorInfo \<Rightarrow> bool" where
  "should_process include_selectors exclude_selectors monitor =
     (let sp = (case include_selectors of
                  None \<Rightarrow> True
                | Some incl \<Rightarrow>
                    if length incl > 0 then any_selector_matches incl monitor else True)
      in case exclude_selectors of
           None \<Rightarrow> sp
         | Some excl \<Rightarrow>
             if length excl > 0 \<and> any_selector_matches excl monitor then False else sp)"

text \<open>The result that a monitor gets when it is filtered out (lines 157 to 161).\<close>

definition filtered_out_result :: "MonitorInfo \<Rightarrow> RotationResult" where
  "filtered_out_result monitor =
     \<lparr>success = True, error_code = DISP_CHANGE_SUCCESSFUL,
      old_orientation = orientation monitor, new_orientation = orientation monitor\<rparr>"

text \<open>The loop of \<^verbatim>\<open>rotate_monitors_filtered\<close> over the monitors that are left.\<close>

fun rotate_loop ::
  "'s winapi \<Rightarrow> MonitorInfo list \<Rightarrow> RotationCommand \<Rightarrow> Selector list option
     \<Rightarrow> Selector list option \<Rightarrow> bool \<Rightarrow> BatchRotationResult \<Rightarrow> 's world
     \<Rightarrow> BatchRotationResult \<times> 's world" where
  "rotate_loop api [] command incl excl dry_run batch_result w = (batch_result, w)"
| "rotate_loop api (monitor # rest) command incl excl dry_run batch_result w =
     (if should_process incl excl monitor
      then (case rotate_monitor api (Some monitor) command dry_run w of
              (result, w') \<Rightarrow>
                rotate_loop api rest command incl excl dry_run
                  (if success result
                   then batch_result\<lparr>success_count := success_count batch_result + 1,
                          results := results batch_result @ [result]\<rparr>
                   else batch_result\<lparr>failure_count := failure_count batch_result + 1,
                          results := results batch_result @ [result]\<rparr>)
                  w')
      else rotate_loop api rest command incl excl dry_run
             (batch_result\<lparr>results := results batch_result @ [filtered_out_result monitor]\<rparr>)
             w)"

definition rotate_monitors_filtered ::
  "'s winapi \<Rightarrow> MonitorInfo list option \<Rightarrow> RotationCommand \<Rightarrow> Selector list option
     \<Rightarrow> Selector list option \<Rightarrow> bool \<Rightarrow> 's world \<Rightarrow> BatchRotationResult \<times> 's world" where
  "rotate_monitors_filtered api monitors command include_selectors exclude_selectors dry_run w =
     (let batch_result = \<lparr>success_count = 0, failure_count = 0, results = []\<rparr>
      in case monitors of
           None \<Rightarrow> (batch_result, w)
         | Some ms \<Rightarrow>
             if length ms = 0 then (batch_result, w)
             else rotate_loop api ms command include_selectors exclude_selectors dry_run
                    batch_result w)"

subsection \<open>Rollback (\<^verbatim>\<open>rotate.c\<close>)\<close>

record RollbackInfo =
  info_device_path :: string
  original_orientation :: DWORD
  original_width :: DWORD
  original_height :: DWORD

text \<open>
  The loop of \<^verbatim>\<open>create_rollback_state\<close>: a monitor whose current settings cannot be
  read is left out. The list is \<^verbatim>\<open>state->infos\<close> up to \<^verbatim>\<open>state->count\<close>.
\<close>

fun snapshot_loop ::
  "'s winapi \<Rightarrow> MonitorInfo list \<Rightarrow> RollbackInfo list \<Rightarrow> 's world
     \<Rightarrow> RollbackInfo list \<times> 's world" where
  "snapshot_loop api [] infos w = (infos, w)"
| "snapshot_loop api (monitor # rest) infos w =
     (case enum_current_settings api (device_path monitor) w of
        (None, w') \<Rightarrow> snapshot_loop api rest infos w'
      | (Some dm, w') \<Rightarrow>
          snapshot_loop api rest
            (infos @ [\<lparr>info_device_path = device_path monitor,
                       original_orientation = dmDisplayOrientation dm,
                       original_width = dmPelsWidth dm,
                       original_height = dmPelsHeight dm\<rparr>])
            w')"

text \<open>\<^verbatim>\<open>create_rollback_state\<close>: \<open>None\<close> is the \<^verbatim>\<open>NULL\<close> state.\<close>

definition create_rollback_state ::
  "'s winapi \<Rightarrow> MonitorInfo list option \<Rightarrow> 's world \<Rightarrow> RollbackInfo list option \<times> 's world" where
  "create_rollback_state api monitors w =
     (case monitors of
        None \<Rightarrow> (None, w)
      | Some ms \<Rightarrow>
          if length ms = 0 then (None, w)
          else (case snapshot_loop api ms [] w of
                  (infos, w') \<Rightarrow> if length infos = 0 then (None, w') else (Some infos, w')))"

text \<open>Lines 248 to 252 of \<^verbatim>\<open>rollback_monitors\<close>: the settings of a rollback.\<close>

definition rollback_devmode :: "devmode \<Rightarrow> RollbackInfo \<Rightarrow> devmode" where
  "rollback_devmode dm info =
     dm\<lparr>dmDisplayOrientation := original_orientation info,
        dmPelsWidth := original_width info,
        dmPelsHeight := original_height info,
        dmFields := DM_DISPLAYORIENTATION OR DM_PELSWIDTH OR DM_PELSHEIGHT\<rparr>"

text \<open>The loop of \<^verbatim>\<open>rollback_monitors\<close>, with the flag \<^verbatim>\<open>all_successful\<close>.\<close>

fun rollback_loop ::
  "'s winapi \<Rightarrow> RollbackInfo list \<Rightarrow> bool \<Rightarrow> bool \<Rightarrow> 's world \<Rightarrow> bool \<times> 's world" where
  "rollback_loop api [] dry_run all_successful w = (all_successful, w)"
| "rollback_loop api (info # rest) dry_run all_successful w =
     (case enum_current_settings api (info_device_path info) w of
        (None, w1) \<Rightarrow>
          rollback_loop api rest dry_run False
            (log_error ''Failed to get current settings for rollback of %s''
               [Str (info_device_path info)] w1)
      | (Some dm, w1) \<Rightarrow>
          if dry_run then rollback_loop api rest dry_run all_successful w1
          else
            (case change_display_settings api (info_device_path info)
                    (rollback_devmode dm info) w1 of
               (result, w2) \<Rightarrow>
                 if result \<noteq> DISP_CHANGE_SUCCESSFUL
                 then rollback_loop api rest dry_run False
                        (log_error ''Failed to rollback monitor %s: error %ld''
                           [Str (info_device_path info), Num result] w2)
                 else rollback_loop api rest dry_run all_successful w2))"

definition rollback_monitors ::
  "'s winapi \<Rightarrow> RollbackInfo list option \<Rightarrow> bool \<Rightarrow> 's world \<Rightarrow> bool \<times> 's world" where
  "rollback_monitors api rollback_state dry_run w =
     (case rollback_state of
        None \<Rightarrow> (True, w)
      | Some infos \<Rightarrow>
          if length infos = 0 then (True, w)
          else rollback_loop api infos dry_run True w)"

subsection \<open>The rotation command (\<^verbatim>\<open>cli.c\<close>)\<close>

text \<open>
  The fields of \<^verbatim>\<open>CliArgs\<close> that the rotation command reads, as \<^verbatim>\<open>parse_args\<close> fills
  them: \<open>only_selector\<close> is \<^verbatim>\<open>parse_selector\<close> of the argument of \<^verbatim>\<open>--only\<close>,
  \<open>include_selectors\<close> and \<open>exclude_selectors\<close> are \<^verbatim>\<open>parse_selector_list\<close> of the
  arguments of \<^verbatim>\<open>--include\<close> and \<^verbatim>\<open>--exclude\<close>, and each is \<^verbatim>\<open>NULL\<close> without its flag.
\<close>

record CliArgs =
  include_selectors :: "Selector list option"
  exclude_selectors :: "Selector list option"
  only_selector :: "Selector option"

text \<open>The global flags of \<^verbatim>\<open>cli.c\<close> that the rotation command reads.\<close>

record globals =
  g_dry_run :: bool
  g_no_confirm :: bool
  g_revert_seconds :: int

text \<open>
  \<^verbatim>\<open>get_applicable_selectors\<close>. A list that \<^verbatim>\<open>parse_selector_list\<close> returned has at
  least one selector; the first slot of an empty array would be uninitialised memory.
\<close>

definition get_applicable_selectors ::
  "CliArgs \<Rightarrow> MosDefConfig option \<Rightarrow> fault + Selector list option" where
  "get_applicable_selectors args config =
     (case only_selector args of
        Some only \<Rightarrow> Inr (Some [only])
      | None \<Rightarrow>
          (case include_selectors args of
             Some incl \<Rightarrow>
               (case incl of
                  [] \<Rightarrow> Inl UninitialisedRead
                | first # _ \<Rightarrow> parse_selector_list (Some (sel_value first)))
           | None \<Rightarrow>
               (case config of
                  Some c \<Rightarrow>
                    (case default_selector c of
                       Some d \<Rightarrow> parse_selector_list (Some d)
                     | None \<Rightarrow> parse_selector_list (Some ''*''))
                | None \<Rightarrow> parse_selector_list (Some ''*''))))"

text \<open>\<^verbatim>\<open>tolower\<close> on the \<^verbatim>\<open>int\<close> that \<^verbatim>\<open>_getch\<close> returns.\<close>

definition tolower_key :: "int \<Rightarrow> int" where
  "tolower_key ch = (if 65 \<le> ch \<and> ch \<le> 90 then ch + 32 else ch)"

text \<open>\<^verbatim>\<open>prompt_confirmation\<close>: 121 is the letter y.\<close>

definition prompt_confirmation :: "'s winapi \<Rightarrow> 's world \<Rightarrow> bool \<times> 's world" where
  "prompt_confirmation api w =
     (case getch api (os w) of (ch, s) \<Rightarrow> (tolower_key ch = 121, w\<lparr>os := s\<rparr>))"

text \<open>
  The countdown of \<^verbatim>\<open>start_revert_timer\<close>, one round per second that is left: \<open>True\<close>
  when a key y confirmed, \<open>False\<close> when the time expired.
\<close>

fun countdown :: "'s winapi \<Rightarrow> nat \<Rightarrow> 's world \<Rightarrow> bool \<times> 's world" where
  "countdown api 0 w = (False, w)"
| "countdown api (Suc i) w =
     (case wait_key api (os w) of
        (Some ch, s) \<Rightarrow>
          if tolower_key ch = 121 then (True, w\<lparr>os := s\<rparr>) else countdown api i (w\<lparr>os := s\<rparr>)
      | (None, s) \<Rightarrow> countdown api i (w\<lparr>os := s\<rparr>))"

definition start_revert_timer ::
  "'s winapi \<Rightarrow> int \<Rightarrow> RollbackInfo list option \<Rightarrow> 's world \<Rightarrow> bool \<times> 's world" where
  "start_revert_timer api seconds rollback_state w =
     (case rollback_state of
        None \<Rightarrow> (False, w)
      | Some infos \<Rightarrow>
          (case countdown api (nat seconds) w of
             (True, w') \<Rightarrow> (True, w')
           | (False, w') \<Rightarrow> rollback_monitors api rollback_state False w'))"

definition command_name :: "RotationCommand \<Rightarrow> string" where
  "command_name command =
     (if command = ROTATION_LANDSCAPE then ''landscape''
      else if command = ROTATION_PORTRAIT then ''portrait''
      else ''toggle'')"

text \<open>Lines 283 to 304 of \<^verbatim>\<open>handle_rotation_command\<close>: confirmation and revert.\<close>

definition confirm_or_revert ::
  "'s winapi \<Rightarrow> globals \<Rightarrow> RollbackInfo list option \<Rightarrow> BatchRotationResult \<Rightarrow> 's world
     \<Rightarrow> 's world" where
  "confirm_or_revert api g rollback_state result w =
     (if \<not> g_dry_run g \<and> \<not> g_no_confirm g \<and> success_count result > 0
      then if g_revert_seconds g > 0
           then (case start_revert_timer api (g_revert_seconds g) rollback_state w of
                   (started, w') \<Rightarrow>
                     if \<not> started then log_error ''Failed to start revert timer'' [] w'
                     else w')
           else (case prompt_confirmation api w of
                   (keep, w') \<Rightarrow>
                     if \<not> keep
                     then (case rollback_state of
                             Some infos \<Rightarrow> snd (rollback_monitors api rollback_state False w')
                           | None \<Rightarrow> w')
                     else w')
      else w)"

text \<open>The exit code at the end of \<^verbatim>\<open>handle_rotation_command\<close>.\<close>

definition exit_code :: "BatchRotationResult \<Rightarrow> int" where
  "exit_code result =
     (if failure_count result > 0 then 3
      else if success_count result = 0 then 2
      else 0)"

text \<open>
  \<^verbatim>\<open>handle_rotation_command\<close>. The results of \<^verbatim>\<open>load_config()\<close> and of
  \<^verbatim>\<open>enumerate_monitors()\<close> are arguments. The result is the exit code and the world
  after the command, or the fault of an uninitialised read.
\<close>

definition handle_rotation_command ::
  "'s winapi \<Rightarrow> globals \<Rightarrow> RotationCommand \<Rightarrow> CliArgs \<Rightarrow> MosDefConfig option
     \<Rightarrow> MonitorInfo list option \<Rightarrow> 's world \<Rightarrow> fault + (int \<times> 's world)" where
  "handle_rotation_command api g command args config monitors w =
     (if monitors = None \<or> monitors = Some []
      then Inr (3, log_error ''No monitors found'' [] w)
      else
        (case get_applicable_selectors args config of
           Inl f \<Rightarrow> Inl f
         | Inr None \<Rightarrow> Inr (2, log_error ''No monitors match the specified selectors'' [] w)
         | Inr (Some applicable_selectors) \<Rightarrow>
             (case (if g_revert_seconds g > 0 then create_rollback_state api monitors w
                    else (None, w)) of
                (rollback_state, w1) \<Rightarrow>
                  (case rotate_monitors_filtered api monitors command
                          (if length applicable_selectors > 0 then Some applicable_selectors
                           else None)
                          (exclude_selectors args) (g_dry_run g) w1 of
                     (result, w2) \<Rightarrow>
                       (let w3 = confirm_or_revert api g rollback_state result w2;
                            w4 = (case config of
                                    Some c \<Rightarrow>
                                      if success_count result > 0
                                      then w3\<lparr>saved := saved w3
                                             @ [c\<lparr>last_action := Some (command_name command)\<rparr>]\<rparr>
                                      else w3
                                  | None \<Rightarrow> w3)
                        in Inr (exit_code result, w4))))))"

subsection \<open>A simulated display driver\<close>

text \<open>
  An instance of the external calls, to run the model on concrete inputs. Its state
  holds the current settings of each device path (the first entry of a path counts),
  the result codes with which the driver rejects changes of some paths, the number of
  coming reads that fail (displays that are not ready yet) and the keys that the user
  is going to press.
\<close>

record sim_os =
  sim_settings :: "(string \<times> devmode) list"
  sim_rejects :: "(string \<times> LONG) list"
  sim_blackout :: nat
  sim_keys :: "int list"

definition sim_api :: "sim_os winapi" where
  "sim_api =
     \<lparr>EnumDisplaySettingsExA = (\<lambda>path s.
          if sim_blackout s > 0 then (None, s\<lparr>sim_blackout := sim_blackout s - 1\<rparr>)
          else (map_of (sim_settings s) path, s)),
      ChangeDisplaySettingsExA = (\<lambda>path dm s.
          case map_of (sim_rejects s) path of
            Some rc \<Rightarrow> (rc, s)
          | None \<Rightarrow> (DISP_CHANGE_SUCCESSFUL, s\<lparr>sim_settings := (path, dm) # sim_settings s\<rparr>)),
      getch = (\<lambda>s. case sim_keys s of [] \<Rightarrow> (0, s) | k # ks \<Rightarrow> (k, s\<lparr>sim_keys := ks\<rparr>)),
      wait_key = (\<lambda>s. case sim_keys s of
                          [] \<Rightarrow> (None, s)
                        | k # ks \<Rightarrow> (Some k, s\<lparr>sim_keys := ks\<rparr>))\<rparr>"

definition sim_world :: "sim_os \<Rightarrow> sim_os world" where
  "sim_world s = \<lparr>os = s, changes = [], errors = [], saved = []\<rparr>"

text \<open>A display of 1920 by 1080 pixels in landscape, and the monitor enumerated for it.\<close>

definition landscape_1080p :: devmode where
  "landscape_1080p =
     \<lparr>dmFields = 0, dmDisplayOrientation = DMDO_DEFAULT, dmPelsWidth = 1920,
      dmPelsHeight = 1080\<rparr>"

definition sample_monitor :: "string \<Rightarrow> string \<Rightarrow> MonitorInfo" where
  "sample_monitor ident path =
     \<lparr>monitor_id = ident, device_name = ''Generic PnP Monitor'', device_path = path,
      width = 1920, height = 1080, orientation = DMDO_DEFAULT, device_id = []\<rparr>"

definition monitor_id_selector :: "string \<Rightarrow> Selector" where
  "monitor_id_selector ident = \<lparr>sel_type = SELECTOR_TYPE_MONITOR_ID, sel_value = ident\<rparr>"

text \<open>An inventory of three monitors, and a driver state that knows their displays.\<close>

definition sample_inventory :: "MonitorInfo list" where
  "sample_inventory =
     [sample_monitor ''M1'' ''DISPLAY1'', sample_monitor ''M2'' ''DISPLAY2'',
      sample_monitor ''M3'' ''DISPLAY3'']"

definition sample_os :: "(string \<times> LONG) list \<Rightarrow> nat \<Rightarrow> int list \<Rightarrow> sim_os" where
  "sample_os rejects blackout keys =
     \<lparr>sim_settings = [(''DISPLAY1'', landscape_1080p), (''DISPLAY2'', landscape_1080p),
                      (''DISPLAY3'', landscape_1080p)],
      sim_rejects = rejects, sim_blackout = blackout, sim_keys = keys\<rparr>"

text \<open>A snapshot of two displays that were in portrait.\<close>

definition sample_snapshot :: "RollbackInfo list" where
  "sample_snapshot =
     [\<lparr>info_device_path = ''DISPLAY1'', original_orientation = DMDO_90,
       original_width = 1080, original_height = 1920\<rparr>,
      \<lparr>info_device_path = ''DISPLAY2'', original_orientation = DMDO_90,
       original_width = 1080, original_height = 1920\<rparr>]"

section \<open>Properties\<close>

lemmas DMDO_defs = DMDO_DEFAULT_def DMDO_90_def DMDO_180_def DMDO_270_def

lemmas DM_defs = DM_DISPLAYORIENTATION_def DM_PELSWIDTH_def DM_PELSHEIGHT_def

lemmas DISP_CHANGE_defs =
  DISP_CHANGE_SUCCESSFUL_def DISP_CHANGE_RESTART_def DISP_CHANGE_FAILED_def
  DISP_CHANGE_BADMODE_def DISP_CHANGE_NOTUPDATED_def DISP_CHANGE_BADFLAGS_def
  DISP_CHANGE_BADPARAM_def DISP_CHANGE_BADDUALVIEW_def

subsection \<open>Rotation engine\<close>

text \<open>
  Claim C5, as the spec states it: the target of a toggle is 0 degrees when the current
  orientation is 90 degrees, and 90 degrees for each of 0, 180 and 270 degrees. The
  code sends 180 degrees to 0 degrees, not to 90.
\<close>

theorem toggle_from_180_is_not_90:
  "orientation_degrees (get_target_orientation DMDO_180 ROTATION_TOGGLE) \<noteq> 90"
  by (simp add: orientation_degrees_def DMDO_defs)

text \<open>
  Claim C5, amended: the target of a toggle is 90 degrees when the current orientation
  is 0 degrees, and 0 degrees for each of 90, 180 and 270 degrees; toggling twice from
  0 degrees (0 to 90 to 0) returns to the original orientation.
\<close>

theorem toggle_target:
  "orientation_degrees (get_target_orientation DMDO_DEFAULT ROTATION_TOGGLE) = 90
   \<and> orientation_degrees (get_target_orientation DMDO_90 ROTATION_TOGGLE) = 0
   \<and> orientation_degrees (get_target_orientation DMDO_180 ROTATION_TOGGLE) = 0
   \<and> orientation_degrees (get_target_orientation DMDO_270 ROTATION_TOGGLE) = 0
   \<and> get_target_orientation (get_target_orientation DMDO_DEFAULT ROTATION_TOGGLE)
        ROTATION_TOGGLE = DMDO_DEFAULT"
  by (simp add: orientation_degrees_def DMDO_defs)

text \<open>
  Claim C8: for orientations \<open>from\<close> and \<open>to\<close> among 0, 90, 180 and 270 degrees, the
  dimensions are swapped if and only if exactly one of the two is 90 or 270 degrees.
\<close>

theorem should_swap_dimensions_iff:
  assumes "from_orientation \<in> {DMDO_DEFAULT, DMDO_90, DMDO_180, DMDO_270}"
    and "to_orientation \<in> {DMDO_DEFAULT, DMDO_90, DMDO_180, DMDO_270}"
  shows "should_swap_dimensions from_orientation to_orientation
         \<longleftrightarrow> (orientation_degrees from_orientation \<in> {90, 270})
              \<noteq> (orientation_degrees to_orientation \<in> {90, 270})"
  using assms
  by (auto simp add: should_swap_dimensions_def orientation_degrees_def DMDO_defs)

theorem should_swap_dimensions_iff_witness:
  "DMDO_DEFAULT \<in> {DMDO_DEFAULT, DMDO_90, DMDO_180, DMDO_270}
   \<and> DMDO_270 \<in> {DMDO_DEFAULT, DMDO_90, DMDO_180, DMDO_270}
   \<and> should_swap_dimensions DMDO_DEFAULT DMDO_270
   \<and> orientation_degrees DMDO_DEFAULT \<notin> {90, 270}
   \<and> orientation_degrees DMDO_270 \<in> {90, 270}"
  using should_swap_dimensions_iff [of DMDO_DEFAULT DMDO_270]
  by (simp add: orientation_degrees_def DMDO_defs)

subsection \<open>Dry run\<close>

lemma rotate_monitor_dry_run_changes:
  "changes (snd (rotate_monitor api monitor command True w)) = changes w"
  by (auto simp add: rotate_monitor_def enum_current_settings_def Let_def
      split: option.split prod.split)

lemma rotate_loop_dry_run_changes:
  "changes (snd (rotate_loop api ms command incl excl True b w)) = changes w"
proof (induction ms arbitrary: b w)
  case Nil
  show ?case by simp
next
  case (Cons m ms)
  show ?case
  proof (cases "should_process incl excl m")
    case True
    obtain r w' where rm: "rotate_monitor api (Some m) command True w = (r, w')"
      by (cases "rotate_monitor api (Some m) command True w")
    have "changes w' = changes w"
      using rotate_monitor_dry_run_changes [of api "Some m" command w] by (simp add: rm)
    then show ?thesis
      using True rm Cons.IH by simp
  next
    case False
    then show ?thesis using Cons.IH by simp
  qed
qed

text \<open>
  Claim C6, as the spec states it: with \<open>dry_run\<close> the rotation of a selected monitor
  always reports success. It reports a failure for a monitor whose current settings
  cannot be read, here a monitor whose device path the driver does not know.
\<close>

theorem dry_run_unreadable_monitor_fails:
  "\<not> success (fst (rotate_monitor sim_api (Some (sample_monitor ''M1'' ''DISPLAY1''))
       ROTATION_PORTRAIT True
       (sim_world \<lparr>sim_settings = [], sim_rejects = [], sim_blackout = 0, sim_keys = []\<rparr>)))"
  by (simp add: rotate_monitor_def enum_current_settings_def sim_api_def sim_world_def
      sample_monitor_def)

text \<open>
  Claim C6, amended: with \<open>dry_run\<close>, neither the rotation of one monitor nor the
  batch calls \<^verbatim>\<open>ChangeDisplaySettingsExA\<close>; for every monitor whose current settings can
  be read, \<^verbatim>\<open>rotate_monitor\<close> reports success with the old orientation as read and the
  new orientation computed from it, and the only effect is that read; a monitor whose
  current settings cannot be read gets the failure \<^verbatim>\<open>DISP_CHANGE_BADMODE\<close>.
\<close>

theorem rotate_monitor_dry_run:
  "changes (snd (rotate_monitor api monitor command True w)) = changes w
   \<and> changes (snd (rotate_monitors_filtered api monitors command incl excl True w)) = changes w
   \<and> (\<forall>m dm w1.
         monitor = Some m \<and> enum_current_settings api (device_path m) w = (Some dm, w1)
         \<longrightarrow> rotate_monitor api monitor command True w =
               (\<lparr>success = True, error_code = 0,
                 old_orientation = dmDisplayOrientation dm,
                 new_orientation = get_target_orientation (dmDisplayOrientation dm) command\<rparr>,
                w1))
   \<and> (\<forall>m w1.
         monitor = Some m \<and> enum_current_settings api (device_path m) w = (None, w1)
         \<longrightarrow> rotate_monitor api monitor command True w =
               (\<lparr>success = False, error_code = DISP_CHANGE_BADMODE, old_orientation = 0,
                 new_orientation = 0\<rparr>, w1))"
proof (intro conjI allI impI)
  show "changes (snd (rotate_monitor api monitor command True w)) = changes w"
    by (rule rotate_monitor_dry_run_changes)
  show "changes (snd (rotate_monitors_filtered api monitors command incl excl True w))
        = changes w"
    by (simp add: rotate_monitors_filtered_def rotate_loop_dry_run_changes Let_def
        split: option.split)
next
  fix m dm w1
  assume "monitor = Some m \<and> enum_current_settings api (device_path m) w = (Some dm, w1)"
  then show "rotate_monitor api monitor command True w =
             (\<lparr>success = True, error_code = 0, old_orientation = dmDisplayOrientation dm,
               new_orientation = get_target_orientation (dmDisplayOrientation dm) command\<rparr>,
              w1)"
    by (simp add: rotate_monitor_def)
next
  fix m w1
  assume "monitor = Some m \<and> enum_current_settings api (device_path m) w = (None, w1)"
  then show "rotate_monitor api monitor command True w =
             (\<lparr>success = False, error_code = DISP_CHANGE_BADMODE, old_orientation = 0,
               new_orientation = 0\<rparr>, w1)"
    by (simp add: rotate_monitor_def)
qed

theorem rotate_monitor_dry_run_witness:
  "enum_current_settings sim_api ''DISPLAY1''
     (sim_world \<lparr>sim_settings = [(''DISPLAY1'', landscape_1080p)], sim_rejects = [],
                 sim_blackout = 0, sim_keys = []\<rparr>)
   = (Some landscape_1080p,
      sim_world \<lparr>sim_settings = [(''DISPLAY1'', landscape_1080p)], sim_rejects = [],
                 sim_blackout = 0, sim_keys = []\<rparr>)
   \<and> rotate_monitor sim_api (Some (sample_monitor ''M1'' ''DISPLAY1'')) ROTATION_PORTRAIT True
       (sim_world \<lparr>sim_settings = [(''DISPLAY1'', landscape_1080p)], sim_rejects = [],
                   sim_blackout = 0, sim_keys = []\<rparr>)
     = (\<lparr>success = True, error_code = 0, old_orientation = DMDO_DEFAULT,
         new_orientation = DMDO_90\<rparr>,
        sim_world \<lparr>sim_settings = [(''DISPLAY1'', landscape_1080p)], sim_rejects = [],
                   sim_blackout = 0, sim_keys = []\<rparr>)"
proof -
  let ?w = "sim_world \<lparr>sim_settings = [(''DISPLAY1'', landscape_1080p)], sim_rejects = [],
                       sim_blackout = 0, sim_keys = []\<rparr>"
  let ?m = "sample_monitor ''M1'' ''DISPLAY1''"
  have read: "enum_current_settings sim_api (device_path ?m) ?w = (Some landscape_1080p, ?w)"
    by (simp add: enum_current_settings_def sim_api_def sim_world_def sample_monitor_def)
  have "rotate_monitor sim_api (Some ?m) ROTATION_PORTRAIT True ?w =
          (\<lparr>success = True, error_code = 0,
            old_orientation = dmDisplayOrientation landscape_1080p,
            new_orientation =
              get_target_orientation (dmDisplayOrientation landscape_1080p) ROTATION_PORTRAIT\<rparr>,
           ?w)"
    using rotate_monitor_dry_run [of sim_api "Some ?m" ROTATION_PORTRAIT ?w] read by blast
  then show ?thesis
    using read by (simp add: landscape_1080p_def sample_monitor_def)
qed

subsection \<open>Batch rotation\<close>

lemma rotate_loop_append:
  "rotate_loop api (xs @ ys) command incl excl dry_run b w =
     (case rotate_loop api xs command incl excl dry_run b w of
        (b', w') \<Rightarrow> rotate_loop api ys command incl excl dry_run b' w')"
  by (induction xs arbitrary: b w) (simp_all split: prod.split)

lemma rotate_monitors_filtered_Some:
  "rotate_monitors_filtered api (Some ms) command incl excl dry_run w =
     rotate_loop api ms command incl excl dry_run
       \<lparr>success_count = 0, failure_count = 0, results = []\<rparr> w"
  by (cases ms) (simp_all add: rotate_monitors_filtered_def Let_def)

text \<open>One more monitor at the end of the inventory adds one round to the batch.\<close>

lemma rotate_monitors_filtered_snoc:
  "rotate_monitors_filtered api (Some (ms @ [m])) command incl excl dry_run w =
     (case rotate_monitors_filtered api (Some ms) command incl excl dry_run w of
        (b, w') \<Rightarrow>
          if should_process incl excl m
          then (case rotate_monitor api (Some m) command dry_run w' of
                  (r, w'') \<Rightarrow>
                    (if success r
                     then b\<lparr>success_count := success_count b + 1, results := results b @ [r]\<rparr>
                     else b\<lparr>failure_count := failure_count b + 1, results := results b @ [r]\<rparr>,
                     w''))
          else (b\<lparr>results := results b @ [filtered_out_result m]\<rparr>, w'))"
  by (simp add: rotate_monitors_filtered_Some rotate_loop_append split: prod.split)

lemma rotate_monitors_filtered_length:
  "length (results (fst (rotate_monitors_filtered api (Some ms) command incl excl dry_run w)))
   = length ms"
proof (induction ms rule: rev_induct)
  case Nil
  show ?case by (simp add: rotate_monitors_filtered_Some)
next
  case (snoc m ms)
  then show ?case
    by (auto simp add: rotate_monitors_filtered_snoc split: prod.split)
qed

lemma rotate_monitors_filtered_prefix:
  "i \<le> length ms \<Longrightarrow>
   take i (results (fst (rotate_monitors_filtered api (Some ms) command incl excl dry_run w)))
   = results (fst (rotate_monitors_filtered api (Some (take i ms)) command incl excl dry_run w))"
proof (induction ms rule: rev_induct)
  case Nil
  then show ?case by (simp add: rotate_monitors_filtered_Some)
next
  case (snoc m ms)
  show ?case
  proof (cases "i \<le> length ms")
    case True
    obtain b w' where R: "rotate_monitors_filtered api (Some ms) command incl excl dry_run w = (b, w')"
      by (cases "rotate_monitors_filtered api (Some ms) command incl excl dry_run w")
    obtain r w'' where M: "rotate_monitor api (Some m) command dry_run w' = (r, w'')"
      by (cases "rotate_monitor api (Some m) command dry_run w'")
    have len: "length (results b) = length ms"
      using rotate_monitors_filtered_length [of api ms command incl excl dry_run w]
      by (simp add: R)
    have "take i (results b)
          = results (fst (rotate_monitors_filtered api (Some (take i ms)) command incl excl dry_run w))"
      using snoc.IH [OF True] by (simp add: R)
    then show ?thesis
      using True len by (simp add: rotate_monitors_filtered_snoc R M)
  next
    case False
    with snoc.prems have i: "i = length (ms @ [m])" by simp
    show ?thesis
      using rotate_monitors_filtered_length [of api "ms @ [m]" command incl excl dry_run w]
      by (simp add: i)
  qed
qed

text \<open>The round of monitor \<open>i\<close>, from the world that the monitors before it left.\<close>

lemma rotate_monitors_filtered_round:
  assumes "i < length ms"
  shows "(if should_process incl excl (ms ! i)
          then (results (fst (rotate_monitors_filtered api (Some ms) command incl excl dry_run w)) ! i,
                snd (rotate_monitors_filtered api (Some (take (Suc i) ms)) command incl excl dry_run w))
               = rotate_monitor api (Some (ms ! i)) command dry_run
                   (snd (rotate_monitors_filtered api (Some (take i ms)) command incl excl dry_run w))
          else results (fst (rotate_monitors_filtered api (Some ms) command incl excl dry_run w)) ! i
                 = filtered_out_result (ms ! i)
               \<and> snd (rotate_monitors_filtered api (Some (take (Suc i) ms)) command incl excl dry_run w)
                 = snd (rotate_monitors_filtered api (Some (take i ms)) command incl excl dry_run w))"
proof -
  let ?R = "\<lambda>xs. rotate_monitors_filtered api (Some xs) command incl excl dry_run w"
  obtain b w' where R: "?R (take i ms) = (b, w')"
    by (cases "?R (take i ms)")
  obtain r w'' where M: "rotate_monitor api (Some (ms ! i)) command dry_run w' = (r, w'')"
    by (cases "rotate_monitor api (Some (ms ! i)) command dry_run w'")
  have tk: "take (Suc i) ms = take i ms @ [ms ! i]"
    using assms by (simp add: take_Suc_conv_app_nth)
  have len: "length (results b) = i"
    using assms rotate_monitors_filtered_length [of api "take i ms" command incl excl dry_run w]
    by (simp add: R)
  have "results (fst (?R ms)) ! i = take (Suc i) (results (fst (?R ms))) ! i"
    by simp
  also have "take (Suc i) (results (fst (?R ms))) = results (fst (?R (take (Suc i) ms)))"
    using assms by (intro rotate_monitors_filtered_prefix) simp
  finally have nth: "results (fst (?R ms)) ! i = results (fst (?R (take (Suc i) ms))) ! i" .
  show ?thesis
    unfolding nth unfolding tk
    using len
    by (simp add: rotate_monitors_filtered_snoc R M nth_append)
qed


lemma rotate_monitors_filtered_counts:
  "success_count (fst (rotate_monitors_filtered api (Some ms) command incl excl dry_run w))
   = int (length (filter (\<lambda>(m, r). should_process incl excl m \<and> success r)
       (zip ms (results (fst (rotate_monitors_filtered api (Some ms) command incl excl dry_run w))))))
   \<and> failure_count (fst (rotate_monitors_filtered api (Some ms) command incl excl dry_run w))
   = int (length (filter (\<lambda>(m, r). should_process incl excl m \<and> \<not> success r)
       (zip ms (results (fst (rotate_monitors_filtered api (Some ms) command incl excl dry_run w))))))"
proof (induction ms rule: rev_induct)
  case Nil
  show ?case by (simp add: rotate_monitors_filtered_Some)
next
  case (snoc m ms)
  obtain b w' where R: "rotate_monitors_filtered api (Some ms) command incl excl dry_run w = (b, w')"
    by (cases "rotate_monitors_filtered api (Some ms) command incl excl dry_run w")
  obtain r w'' where M: "rotate_monitor api (Some m) command dry_run w' = (r, w'')"
    by (cases "rotate_monitor api (Some m) command dry_run w'")
  have len: "length (results b) = length ms"
    using rotate_monitors_filtered_length [of api ms command incl excl dry_run w]
    by (simp add: R)
  have filtered: "success (filtered_out_result m)"
    by (simp add: filtered_out_result_def)
  show ?case
    using snoc.IH len by (simp add: rotate_monitors_filtered_snoc R M)
qed

text \<open>A monitor that an exclude selector matches is not processed.\<close>

lemma excluded_not_processed:
  "any_selector_matches e m \<Longrightarrow> \<not> should_process incl (Some e) m"
  by (cases e) (simp_all add: should_process_def Let_def)


text \<open>
  Claim C4, as the spec states it: a monitor that is filtered out gets a successful
  result that counts toward \<^verbatim>\<open>success_count\<close>. With three monitors and the include
  selector \<^verbatim>\<open>M1\<close>, the monitors \<^verbatim>\<open>M2\<close> and \<^verbatim>\<open>M3\<close> get that result, all three results
  are successful, and \<^verbatim>\<open>success_count\<close> is 1.
\<close>

theorem filtered_out_monitor_is_not_counted:
  "(case rotate_monitors_filtered sim_api (Some sample_inventory) ROTATION_PORTRAIT
          (Some [monitor_id_selector ''M1'']) None False (sim_world (sample_os [] 0 [])) of
      (res, w') \<Rightarrow>
        results res ! 1 = filtered_out_result (sample_inventory ! 1)
        \<and> results res ! 2 = filtered_out_result (sample_inventory ! 2)
        \<and> map success (results res) = [True, True, True]
        \<and> success_count res = 1)"
  by code_simp


text \<open>
  Claim C4, amended. For every inventory, command, include and exclude list:
  \<^item> the results are as many as the monitors, result \<open>i\<close> belonging to monitor \<open>i\<close>;
  \<^item> a monitor that an exclude selector matches is not processed, whatever the include
    list says;
  \<^item> a monitor that is processed gets the result of \<^verbatim>\<open>rotate_monitor\<close>, run in the
    world that the monitors before it left, whatever their results were, so that a
    failure does not end the batch;
  \<^item> a monitor that is not processed gets a successful result whose old and new
    orientation are both the orientation of the inventory, and nothing happens in its
    round;
  \<^item> \<^verbatim>\<open>success_count\<close> and \<^verbatim>\<open>failure_count\<close> are the numbers of processed monitors
    whose result is a success and a failure; a monitor that is not processed counts
    toward neither.
\<close>

theorem rotate_monitors_filtered_postcondition:
  "length (results (fst (rotate_monitors_filtered api (Some ms) command incl excl dry_run w)))
   = length ms
   \<and> (\<forall>i<length ms.
        (\<forall>e. excl = Some e \<and> any_selector_matches e (ms ! i)
             \<longrightarrow> \<not> should_process incl excl (ms ! i))
        \<and> (if should_process incl excl (ms ! i)
           then (results (fst (rotate_monitors_filtered api (Some ms) command incl excl dry_run w)) ! i,
                 snd (rotate_monitors_filtered api (Some (take (Suc i) ms)) command incl excl dry_run w))
                = rotate_monitor api (Some (ms ! i)) command dry_run
                    (snd (rotate_monitors_filtered api (Some (take i ms)) command incl excl dry_run w))
           else results (fst (rotate_monitors_filtered api (Some ms) command incl excl dry_run w)) ! i
                = \<lparr>success = True, error_code = DISP_CHANGE_SUCCESSFUL,
                   old_orientation = orientation (ms ! i),
                   new_orientation = orientation (ms ! i)\<rparr>
              \<and> snd (rotate_monitors_filtered api (Some (take (Suc i) ms)) command incl excl dry_run w)
                = snd (rotate_monitors_filtered api (Some (take i ms)) command incl excl dry_run w)))
   \<and> success_count (fst (rotate_monitors_filtered api (Some ms) command incl excl dry_run w))
     = int (length (filter (\<lambda>(m, r). should_process incl excl m \<and> success r)
         (zip ms (results (fst (rotate_monitors_filtered api (Some ms) command incl excl dry_run w))))))
   \<and> failure_count (fst (rotate_monitors_filtered api (Some ms) command incl excl dry_run w))
     = int (length (filter (\<lambda>(m, r). should_process incl excl m \<and> \<not> success r)
         (zip ms (results (fst (rotate_monitors_filtered api (Some ms) command incl excl dry_run w))))))"
proof (intro conjI allI impI)
  show "length (results (fst (rotate_monitors_filtered api (Some ms) command incl excl dry_run w)))
        = length ms"
    by (rule rotate_monitors_filtered_length)
next
  fix i e
  assume "excl = Some e \<and> any_selector_matches e (ms ! i)"
  then show "\<not> should_process incl excl (ms ! i)"
    by (simp add: excluded_not_processed)
next
  fix i
  assume "i < length ms"
  from rotate_monitors_filtered_round [OF this, of incl excl api command dry_run w]
  show "if should_process incl excl (ms ! i)
           then (results (fst (rotate_monitors_filtered api (Some ms) command incl excl dry_run w)) ! i,
                 snd (rotate_monitors_filtered api (Some (take (Suc i) ms)) command incl excl dry_run w))
                = rotate_monitor api (Some (ms ! i)) command dry_run
                    (snd (rotate_monitors_filtered api (Some (take i ms)) command incl excl dry_run w))
           else results (fst (rotate_monitors_filtered api (Some ms) command incl excl dry_run w)) ! i
                = \<lparr>success = True, error_code = DISP_CHANGE_SUCCESSFUL,
                   old_orientation = orientation (ms ! i),
                   new_orientation = orientation (ms ! i)\<rparr>
              \<and> snd (rotate_monitors_filtered api (Some (take (Suc i) ms)) command incl excl dry_run w)
                = snd (rotate_monitors_filtered api (Some (take i ms)) command incl excl dry_run w)"
    by (simp add: filtered_out_result_def split: if_splits)
next
  show "success_count (fst (rotate_monitors_filtered api (Some ms) command incl excl dry_run w))
     = int (length (filter (\<lambda>(m, r). should_process incl excl m \<and> success r)
         (zip ms (results (fst (rotate_monitors_filtered api (Some ms) command incl excl dry_run w))))))"
    using rotate_monitors_filtered_counts by blast
  show "failure_count (fst (rotate_monitors_filtered api (Some ms) command incl excl dry_run w))
     = int (length (filter (\<lambda>(m, r). should_process incl excl m \<and> \<not> success r)
         (zip ms (results (fst (rotate_monitors_filtered api (Some ms) command incl excl dry_run w))))))"
    using rotate_monitors_filtered_counts by blast
qed



text \<open>
  Two runs on the simulated driver. Three monitors where the driver rejects the change
  of the second one: two successes, one failure, three results, and all three changes
  were attempted. Three monitors with the include list \<^verbatim>\<open>M1,M3\<close> and the exclude list
  \<^verbatim>\<open>M3\<close>: only the first one is changed.
\<close>

theorem rotate_monitors_filtered_postcondition_witness:
  "(1 < length sample_inventory
    \<and> should_process None None (sample_inventory ! 1)
    \<and> (results (fst (rotate_monitors_filtered sim_api (Some sample_inventory) ROTATION_PORTRAIT
          None None False (sim_world (sample_os [(''DISPLAY2'', DISP_CHANGE_FAILED)] 0 [])))) ! 1,
        snd (rotate_monitors_filtered sim_api (Some (take (Suc 1) sample_inventory))
          ROTATION_PORTRAIT None None False
          (sim_world (sample_os [(''DISPLAY2'', DISP_CHANGE_FAILED)] 0 []))))
       = rotate_monitor sim_api (Some (sample_inventory ! 1)) ROTATION_PORTRAIT False
           (snd (rotate_monitors_filtered sim_api (Some (take 1 sample_inventory))
              ROTATION_PORTRAIT None None False
              (sim_world (sample_os [(''DISPLAY2'', DISP_CHANGE_FAILED)] 0 []))))
    \<and> (case rotate_monitors_filtered sim_api (Some sample_inventory) ROTATION_PORTRAIT
               None None False
               (sim_world (sample_os [(''DISPLAY2'', DISP_CHANGE_FAILED)] 0 [])) of
          (res, w') \<Rightarrow>
            map success (results res) = [True, False, True]
            \<and> success_count res = 2 \<and> failure_count res = 1
            \<and> map fst (changes w') = [''DISPLAY1'', ''DISPLAY2'', ''DISPLAY3'']))
   \<and> (2 < length sample_inventory
      \<and> any_selector_matches [monitor_id_selector ''M3''] (sample_inventory ! 2)
      \<and> any_selector_matches [monitor_id_selector ''M1'', monitor_id_selector ''M3'']
           (sample_inventory ! 2)
      \<and> \<not> should_process (Some [monitor_id_selector ''M1'', monitor_id_selector ''M3''])
             (Some [monitor_id_selector ''M3'']) (sample_inventory ! 2)
      \<and> results (fst (rotate_monitors_filtered sim_api (Some sample_inventory) ROTATION_PORTRAIT
               (Some [monitor_id_selector ''M1'', monitor_id_selector ''M3''])
               (Some [monitor_id_selector ''M3'']) False (sim_world (sample_os [] 0 [])))) ! 2
          = \<lparr>success = True, error_code = DISP_CHANGE_SUCCESSFUL,
             old_orientation = orientation (sample_inventory ! 2),
             new_orientation = orientation (sample_inventory ! 2)\<rparr>
      \<and> (case rotate_monitors_filtered sim_api (Some sample_inventory) ROTATION_PORTRAIT
                (Some [monitor_id_selector ''M1'', monitor_id_selector ''M3''])
                (Some [monitor_id_selector ''M3'']) False (sim_world (sample_os [] 0 [])) of
            (res, w') \<Rightarrow>
              map fst (changes w') = [''DISPLAY1'']
              \<and> success_count res = 1 \<and> failure_count res = 0))"
proof -
  let ?wA = "sim_world (sample_os [(''DISPLAY2'', DISP_CHANGE_FAILED)] 0 [])"
  let ?wB = "sim_world (sample_os [] 0 [])"
  let ?incl = "Some [monitor_id_selector ''M1'', monitor_id_selector ''M3'']"
  let ?excl = "Some [monitor_id_selector ''M3'']"
  note A = rotate_monitors_filtered_postcondition
    [of sim_api sample_inventory ROTATION_PORTRAIT None None False ?wA]
  note B = rotate_monitors_filtered_postcondition
    [of sim_api sample_inventory ROTATION_PORTRAIT ?incl ?excl False ?wB]
  have len: "length sample_inventory = 3"
    by (simp add: sample_inventory_def)
  have spA: "should_process None None (sample_inventory ! 1)"
    by (simp add: should_process_def)
  have roundA: "(results (fst (rotate_monitors_filtered sim_api (Some sample_inventory)
          ROTATION_PORTRAIT None None False ?wA)) ! 1,
        snd (rotate_monitors_filtered sim_api (Some (take (Suc 1) sample_inventory))
          ROTATION_PORTRAIT None None False ?wA))
       = rotate_monitor sim_api (Some (sample_inventory ! 1)) ROTATION_PORTRAIT False
           (snd (rotate_monitors_filtered sim_api (Some (take 1 sample_inventory))
              ROTATION_PORTRAIT None None False ?wA))"
    using A spA len by simp
  have evA: "(case rotate_monitors_filtered sim_api (Some sample_inventory) ROTATION_PORTRAIT
      None None False ?wA of
          (res, w') \<Rightarrow> map success (results res) = [True, False, True]
            \<and> success_count res = 2 \<and> failure_count res = 1
            \<and> map fst (changes w') = [''DISPLAY1'', ''DISPLAY2'', ''DISPLAY3''])"
    by code_simp
  have mB: "any_selector_matches [monitor_id_selector ''M3''] (sample_inventory ! 2)"
    "any_selector_matches [monitor_id_selector ''M1'', monitor_id_selector ''M3'']
           (sample_inventory ! 2)"
    by code_simp+
  have nspB: "\<not> should_process ?incl ?excl (sample_inventory ! 2)"
    using B mB len by simp
  have roundB: "results (fst (rotate_monitors_filtered sim_api (Some sample_inventory)
      ROTATION_PORTRAIT ?incl ?excl False ?wB)) ! 2
          = \<lparr>success = True, error_code = DISP_CHANGE_SUCCESSFUL,
             old_orientation = orientation (sample_inventory ! 2),
             new_orientation = orientation (sample_inventory ! 2)\<rparr>"
    using B nspB len by simp
  have evB: "(case rotate_monitors_filtered sim_api (Some sample_inventory) ROTATION_PORTRAIT
      ?incl ?excl False ?wB of
          (res, w') \<Rightarrow> map fst (changes w') = [''DISPLAY1'']
              \<and> success_count res = 1 \<and> failure_count res = 0)"
    by code_simp
  show ?thesis
    using len spA roundA evA mB nspB roundB evB by simp
qed

subsection \<open>Rollback\<close>

lemma rollback_loop_append:
  "rollback_loop api (xs @ ys) False ok w =
     (case rollback_loop api xs False ok w of
        (ok', w') \<Rightarrow> rollback_loop api ys False ok' w')"
proof (induction xs arbitrary: ok w)
  case Nil
  show ?case by simp
next
  case (Cons x xs)
  obtain r w1 where E: "enum_current_settings api (info_device_path x) w = (r, w1)"
    by (cases "enum_current_settings api (info_device_path x) w")
  show ?case
  proof (cases r)
    case None
    then show ?thesis using E by (simp add: Cons.IH)
  next
    case (Some dm)
    obtain rc w2 where C: "change_display_settings api (info_device_path x)
        (rollback_devmode dm x) w1 = (rc, w2)"
      by (cases "change_display_settings api (info_device_path x) (rollback_devmode dm x) w1")
    show ?thesis using E Some C by (simp add: Cons.IH)
  qed
qed

lemma rollback_monitors_Some:
  "rollback_monitors api (Some infos) dry_run w = rollback_loop api infos dry_run True w"
  by (cases infos) (simp_all add: rollback_monitors_def)

text \<open>One more entry at the end of the snapshot adds one round to the rollback.\<close>

lemma rollback_monitors_snoc:
  "rollback_monitors api (Some (infos @ [info])) False w =
     (case rollback_monitors api (Some infos) False w of
        (ok, w') \<Rightarrow>
          (case enum_current_settings api (info_device_path info) w' of
             (None, w1) \<Rightarrow>
               (False, log_error ''Failed to get current settings for rollback of %s''
                         [Str (info_device_path info)] w1)
           | (Some dm, w1) \<Rightarrow>
               (case change_display_settings api (info_device_path info)
                       (rollback_devmode dm info) w1 of
                  (rc, w2) \<Rightarrow>
                    if rc \<noteq> DISP_CHANGE_SUCCESSFUL
                    then (False, log_error ''Failed to rollback monitor %s: error %ld''
                                   [Str (info_device_path info), Num rc] w2)
                    else (ok, w2))))"
  by (simp add: rollback_monitors_Some rollback_loop_append split: prod.split option.split)

text \<open>The round of entry \<open>i\<close>, from the world that the entries before it left.\<close>

lemma rollback_monitors_round:
  assumes "i < length infos"
  shows "snd (rollback_monitors api (Some (take (Suc i) infos)) False w) =
     (case enum_current_settings api (info_device_path (infos ! i))
             (snd (rollback_monitors api (Some (take i infos)) False w)) of
        (None, w1) \<Rightarrow>
          log_error ''Failed to get current settings for rollback of %s''
            [Str (info_device_path (infos ! i))] w1
      | (Some dm, w1) \<Rightarrow>
          (case change_display_settings api (info_device_path (infos ! i))
                  (rollback_devmode dm (infos ! i)) w1 of
             (rc, w2) \<Rightarrow>
               if rc \<noteq> DISP_CHANGE_SUCCESSFUL
               then log_error ''Failed to rollback monitor %s: error %ld''
                      [Str (info_device_path (infos ! i)), Num rc] w2
               else w2))"
proof -
  have tk: "take (Suc i) infos = take i infos @ [infos ! i]"
    using assms by (simp add: take_Suc_conv_app_nth)
  show ?thesis
    unfolding tk
    by (simp add: rollback_monitors_snoc split: prod.split option.split)
qed

text \<open>The rollback succeeds when the round of every entry does.\<close>

lemma rollback_monitors_all:
  "fst (rollback_monitors api (Some infos) False w) \<longleftrightarrow>
     (\<forall>i<length infos.
        case enum_current_settings api (info_device_path (infos ! i))
               (snd (rollback_monitors api (Some (take i infos)) False w)) of
          (None, w1) \<Rightarrow> False
        | (Some dm, w1) \<Rightarrow>
            fst (change_display_settings api (info_device_path (infos ! i))
                   (rollback_devmode dm (infos ! i)) w1) = DISP_CHANGE_SUCCESSFUL)"
proof (induction infos rule: rev_induct)
  case Nil
  show ?case by (simp add: rollback_monitors_Some)
next
  case (snoc info infos)
  let ?ok = "\<lambda>xs i. case enum_current_settings api (info_device_path (xs ! i))
               (snd (rollback_monitors api (Some (take i xs)) False w)) of
          (None, w1) \<Rightarrow> False
        | (Some dm, w1) \<Rightarrow>
            fst (change_display_settings api (info_device_path (xs ! i))
                   (rollback_devmode dm (xs ! i)) w1) = DISP_CHANGE_SUCCESSFUL"
  have old: "?ok (infos @ [info]) i = ?ok infos i" if "i < length infos" for i
  proof -
    have a: "(infos @ [info]) ! i = infos ! i"
      using that by (simp add: nth_append)
    have b: "take i (infos @ [info]) = take i infos"
      using that by simp
    show ?thesis
      unfolding a b ..
  qed
  have last: "?ok (infos @ [info]) (length infos) =
     (case enum_current_settings api (info_device_path info)
               (snd (rollback_monitors api (Some infos) False w)) of
          (None, w1) \<Rightarrow> False
        | (Some dm, w1) \<Rightarrow>
            fst (change_display_settings api (info_device_path info)
                   (rollback_devmode dm info) w1) = DISP_CHANGE_SUCCESSFUL)"
  proof -
    have a: "(infos @ [info]) ! length infos = info"
      by simp
    have b: "take (length infos) (infos @ [info]) = infos"
      by simp
    show ?thesis
      unfolding a b ..
  qed
  have step: "fst (rollback_monitors api (Some (infos @ [info])) False w) \<longleftrightarrow>
      fst (rollback_monitors api (Some infos) False w) \<and> ?ok (infos @ [info]) (length infos)"
    unfolding last
    by (simp add: rollback_monitors_snoc split: prod.split option.split)
  have "(\<forall>i<length (infos @ [info]). ?ok (infos @ [info]) i) \<longleftrightarrow>
        (\<forall>i<length infos. ?ok infos i) \<and> ?ok (infos @ [info]) (length infos)"
    using old by (auto simp add: less_Suc_eq)
  then show ?case
    using step snoc.IH by simp
qed



text \<open>
  Claim C9, as the spec states it: the rollback applies the captured orientation,
  width and height for every captured entry. For an entry whose current settings
  cannot be read at the time of the rollback, it applies nothing: here the snapshot
  has one entry, the read fails, and \<^verbatim>\<open>ChangeDisplaySettingsExA\<close> is never called.
\<close>

theorem rollback_skips_unreadable_entry:
  "(case rollback_monitors sim_api (Some [sample_snapshot ! 0]) False
          (sim_world (sample_os [] 1 [])) of
      (ok, w') \<Rightarrow> \<not> ok \<and> changes w' = [])"
  by code_simp


text \<open>
  Claim C9, amended. In a rollback that is not a dry run, every captured entry gets its
  round in the world that the entries before it left, whatever happened to them:
  \<^item> when the current settings of the entry can be read, the rollback applies them with
    the captured orientation, width and height, all three marked in \<^verbatim>\<open>dmFields\<close>
    whatever the current settings are, and logs an error when the driver rejects them;
  \<^item> when they cannot be read, it logs an error and applies nothing for the entry;
  \<^item> the result is true if and only if for every entry the read succeeded and the driver
    accepted the change.
\<close>

theorem rollback_monitors_restores_entries:
  "(\<forall>i<length infos.
      snd (rollback_monitors api (Some (take (Suc i) infos)) False w) =
        (case enum_current_settings api (info_device_path (infos ! i))
                (snd (rollback_monitors api (Some (take i infos)) False w)) of
           (None, w1) \<Rightarrow>
             log_error ''Failed to get current settings for rollback of %s''
               [Str (info_device_path (infos ! i))] w1
         | (Some dm, w1) \<Rightarrow>
             (case change_display_settings api (info_device_path (infos ! i))
                     (rollback_devmode dm (infos ! i)) w1 of
                (rc, w2) \<Rightarrow>
                  if rc \<noteq> DISP_CHANGE_SUCCESSFUL
                  then log_error ''Failed to rollback monitor %s: error %ld''
                         [Str (info_device_path (infos ! i)), Num rc] w2
                  else w2)))
   \<and> (fst (rollback_monitors api (Some infos) False w) \<longleftrightarrow>
        (\<forall>i<length infos.
           case enum_current_settings api (info_device_path (infos ! i))
                  (snd (rollback_monitors api (Some (take i infos)) False w)) of
             (None, w1) \<Rightarrow> False
           | (Some dm, w1) \<Rightarrow>
               fst (change_display_settings api (info_device_path (infos ! i))
                      (rollback_devmode dm (infos ! i)) w1) = DISP_CHANGE_SUCCESSFUL))
   \<and> (\<forall>dm info.
         dmDisplayOrientation (rollback_devmode dm info) = original_orientation info
         \<and> dmPelsWidth (rollback_devmode dm info) = original_width info
         \<and> dmPelsHeight (rollback_devmode dm info) = original_height info
         \<and> dmFields (rollback_devmode dm info)
           = DM_DISPLAYORIENTATION OR DM_PELSWIDTH OR DM_PELSHEIGHT)"
  using rollback_monitors_round [of _ infos api w] rollback_monitors_all [of api infos w]
  by (simp add: rollback_devmode_def)


text \<open>
  A run on the simulated driver, which rejects the change of the first of two entries:
  the second entry is restored all the same, and the result is false.
\<close>

theorem rollback_monitors_restores_entries_witness:
  "1 < length sample_snapshot
   \<and> enum_current_settings sim_api (info_device_path (sample_snapshot ! 1))
       (snd (rollback_monitors sim_api (Some (take 1 sample_snapshot)) False
          (sim_world (sample_os [(''DISPLAY1'', DISP_CHANGE_FAILED)] 0 []))))
     = (Some landscape_1080p,
        snd (rollback_monitors sim_api (Some (take 1 sample_snapshot)) False
          (sim_world (sample_os [(''DISPLAY1'', DISP_CHANGE_FAILED)] 0 []))))
   \<and> \<not> fst (rollback_monitors sim_api (Some sample_snapshot) False
             (sim_world (sample_os [(''DISPLAY1'', DISP_CHANGE_FAILED)] 0 [])))
   \<and> changes (snd (rollback_monitors sim_api (Some (take (Suc 1) sample_snapshot)) False
                (sim_world (sample_os [(''DISPLAY1'', DISP_CHANGE_FAILED)] 0 []))))
     = [(''DISPLAY1'', rollback_devmode landscape_1080p (sample_snapshot ! 0)),
        (''DISPLAY2'', rollback_devmode landscape_1080p (sample_snapshot ! 1))]"
proof -
  let ?w = "sim_world (sample_os [(''DISPLAY1'', DISP_CHANGE_FAILED)] 0 [])"
  note T = rollback_monitors_restores_entries [of sample_snapshot sim_api ?w]
  have len: "length sample_snapshot = 2"
    by (simp add: sample_snapshot_def)
  have read1: "enum_current_settings sim_api (info_device_path (sample_snapshot ! 1))
       (snd (rollback_monitors sim_api (Some (take 1 sample_snapshot)) False ?w))
     = (Some landscape_1080p,
        snd (rollback_monitors sim_api (Some (take 1 sample_snapshot)) False ?w))"
    by code_simp
  let ?ok = "\<lambda>i. case enum_current_settings sim_api (info_device_path (sample_snapshot ! i))
                  (snd (rollback_monitors sim_api (Some (take i sample_snapshot)) False ?w)) of
             (None, w1) \<Rightarrow> False
           | (Some dm, w1) \<Rightarrow>
               fst (change_display_settings sim_api (info_device_path (sample_snapshot ! i))
                      (rollback_devmode dm (sample_snapshot ! i)) w1) = DISP_CHANGE_SUCCESSFUL"
  have first: "\<not> ?ok 0"
    by code_simp
  have iff: "fst (rollback_monitors sim_api (Some sample_snapshot) False ?w)
             \<longleftrightarrow> (\<forall>i<length sample_snapshot. ?ok i)"
    by (rule T [THEN conjunct2, THEN conjunct1])
  have failed: "\<not> fst (rollback_monitors sim_api (Some sample_snapshot) False ?w)"
  proof
    assume "fst (rollback_monitors sim_api (Some sample_snapshot) False ?w)"
    then have all: "\<forall>i<length sample_snapshot. ?ok i"
      by (rule iff [THEN iffD1])
    have pos: "0 < length sample_snapshot"
      by (simp add: len)
    from all [THEN spec, of 0, THEN mp, OF pos] have "?ok 0" .
    with first show False ..
  qed
  have ch: "changes (snd (rollback_monitors sim_api (Some (take (Suc 1) sample_snapshot)) False ?w))
     = [(''DISPLAY1'', rollback_devmode landscape_1080p (sample_snapshot ! 0)),
        (''DISPLAY2'', rollback_devmode landscape_1080p (sample_snapshot ! 1))]"
    by code_simp
  show ?thesis
    using len read1 failed ch by simp
qed

subsection \<open>Timed revert without a snapshot\<close>

lemma snapshot_loop_append:
  "snapshot_loop api (xs @ ys) infos w =
     (case snapshot_loop api xs infos w of
        (infos', w') \<Rightarrow> snapshot_loop api ys infos' w')"
proof (induction xs arbitrary: infos w)
  case Nil
  show ?case by simp
next
  case (Cons x xs)
  obtain r w1 where E: "enum_current_settings api (device_path x) w = (r, w1)"
    by (cases "enum_current_settings api (device_path x) w")
  show ?case
    using E by (cases r) (simp_all add: Cons.IH)
qed

lemma snapshot_loop_grows:
  "length infos \<le> length (fst (snapshot_loop api ms infos w))"
proof (induction ms arbitrary: infos w)
  case Nil
  show ?case by simp
next
  case (Cons m ms)
  obtain r w1 where E: "enum_current_settings api (device_path m) w = (r, w1)"
    by (cases "enum_current_settings api (device_path m) w")
  show ?case
  proof (cases r)
    case None
    then show ?thesis using E Cons.IH [of infos w1] by simp
  next
    case (Some dm)
    then show ?thesis
      using E Cons.IH [of "infos @ [\<lparr>info_device_path = device_path m,
                       original_orientation = dmDisplayOrientation dm,
                       original_width = dmPelsWidth dm,
                       original_height = dmPelsHeight dm\<rparr>]" w1]
      by simp
  qed
qed

lemma create_rollback_state_world:
  "snd (create_rollback_state api (Some ms) w) = snd (snapshot_loop api ms [] w)"
  by (cases ms) (simp_all add: create_rollback_state_def split: prod.split)

lemma create_rollback_state_None:
  "fst (create_rollback_state api (Some ms) w) = None \<longleftrightarrow> fst (snapshot_loop api ms [] w) = []"
  by (cases ms) (simp_all add: create_rollback_state_def split: prod.split)

text \<open>
  When the snapshot is empty, every read of the current settings failed, each in the
  world that the reads before it left.
\<close>

lemma empty_snapshot_reads_failed:
  assumes none: "fst (create_rollback_state api (Some ms) w) = None" and i: "i < length ms"
  shows "fst (enum_current_settings api (device_path (ms ! i))
           (snd (create_rollback_state api (Some (take i ms)) w))) = None"
proof (rule ccontr)
  assume "fst (enum_current_settings api (device_path (ms ! i))
           (snd (create_rollback_state api (Some (take i ms)) w))) \<noteq> None"
  then obtain dm w1 where E: "enum_current_settings api (device_path (ms ! i))
      (snd (snapshot_loop api (take i ms) [] w)) = (Some dm, w1)"
    by (cases "enum_current_settings api (device_path (ms ! i))
      (snd (snapshot_loop api (take i ms) [] w))")
      (auto simp add: create_rollback_state_world)
  obtain infos wi where P: "snapshot_loop api (take i ms) [] w = (infos, wi)"
    by (cases "snapshot_loop api (take i ms) [] w")
  have split: "ms = take i ms @ ms ! i # drop (Suc i) ms"
    using i by (simp add: id_take_nth_drop)
  let ?info = "\<lparr>info_device_path = device_path (ms ! i),
                       original_orientation = dmDisplayOrientation dm,
                       original_width = dmPelsWidth dm,
                       original_height = dmPelsHeight dm\<rparr>"
  have "snapshot_loop api ms [] w =
        snapshot_loop api (drop (Suc i) ms) (infos @ [?info]) w1"
    using E P by (subst split) (simp add: snapshot_loop_append)
  moreover have "length (infos @ [?info])
      \<le> length (fst (snapshot_loop api (drop (Suc i) ms) (infos @ [?info]) w1))"
    by (rule snapshot_loop_grows)
  ultimately have "fst (snapshot_loop api ms [] w) \<noteq> []"
    by auto
  with none show False
    by (simp add: create_rollback_state_None)
qed

text \<open>
  Claim C10: when a revert timer is configured and \<^verbatim>\<open>create_rollback_state\<close> returns
  \<^verbatim>\<open>NULL\<close>, which means that every read of the current settings failed while the
  snapshot was taken, then \<^verbatim>\<open>start_revert_timer\<close> returns false at once and leaves the
  world as it is (no key is read, no settings are changed), and the command ends with
  the exit code of the batch in the world that the batch left, to which it has only
  added the error line about the timer when the confirmation step was reached, and
  the saved last action.
\<close>

theorem no_snapshot_no_revert:
  assumes secs: "g_revert_seconds g > 0"
    and mons: "monitors = Some ms" "ms \<noteq> []"
    and snap: "create_rollback_state api monitors w = (None, w1)"
    and sels: "get_applicable_selectors args config = Inr (Some sels)"
    and batch: "rotate_monitors_filtered api monitors command
                 (if length sels > 0 then Some sels else None) (exclude_selectors args)
                 (g_dry_run g) w1 = (result, w2)"
  shows "(\<forall>i<length ms.
            fst (enum_current_settings api (device_path (ms ! i))
                   (snd (create_rollback_state api (Some (take i ms)) w))) = None)
    \<and> start_revert_timer api (g_revert_seconds g) None w2 = (False, w2)
    \<and> (case handle_rotation_command api g command args config monitors w of
         Inl f \<Rightarrow> False
       | Inr (code, w4) \<Rightarrow>
           code = exit_code result \<and> os w4 = os w2 \<and> changes w4 = changes w2
           \<and> errors w4 = errors w2 @
               (if \<not> g_dry_run g \<and> \<not> g_no_confirm g \<and> success_count result > 0
                then [(''Failed to start revert timer'', [])] else []))"
proof (intro conjI allI impI)
  fix i
  assume "i < length ms"
  then show "fst (enum_current_settings api (device_path (ms ! i))
                   (snd (create_rollback_state api (Some (take i ms)) w))) = None"
    using snap mons by (intro empty_snapshot_reads_failed) simp_all
next
  show "start_revert_timer api (g_revert_seconds g) None w2 = (False, w2)"
    by (simp add: start_revert_timer_def)
next
  have c: "confirm_or_revert api g None result w2 =
      (if \<not> g_dry_run g \<and> \<not> g_no_confirm g \<and> success_count result > 0
       then log_error ''Failed to start revert timer'' [] w2 else w2)"
    using secs by (simp add: confirm_or_revert_def start_revert_timer_def)
  show "case handle_rotation_command api g command args config monitors w of
         Inl f \<Rightarrow> False
       | Inr (code, w4) \<Rightarrow>
           code = exit_code result \<and> os w4 = os w2 \<and> changes w4 = changes w2
           \<and> errors w4 = errors w2 @
               (if \<not> g_dry_run g \<and> \<not> g_no_confirm g \<and> success_count result > 0
                then [(''Failed to start revert timer'', [])] else [])"
    using secs mons snap sels batch
    by (simp add: handle_rotation_command_def c log_error_def Let_def split: option.split)
qed



text \<open>
  A run on the simulated driver: the display is not ready when the snapshot is taken
  and is ready for the rotation. The rotation stays applied, the key that the user
  has typed is not read, and the exit code is 0.
\<close>

theorem no_snapshot_no_revert_witness:
  "g_revert_seconds \<lparr>g_dry_run = False, g_no_confirm = False, g_revert_seconds = 5\<rparr> > 0
   \<and> create_rollback_state sim_api (Some [sample_monitor ''M1'' ''DISPLAY1''])
       (sim_world (sample_os [] 1 [121]))
     = (None, sim_world (sample_os [] 0 [121]))
   \<and> get_applicable_selectors
       \<lparr>include_selectors = None, exclude_selectors = None,
        only_selector = Some (monitor_id_selector ''M1'')\<rparr> None
     = Inr (Some [monitor_id_selector ''M1''])
   \<and> (case handle_rotation_command sim_api
             \<lparr>g_dry_run = False, g_no_confirm = False, g_revert_seconds = 5\<rparr>
             ROTATION_PORTRAIT
             \<lparr>include_selectors = None, exclude_selectors = None,
              only_selector = Some (monitor_id_selector ''M1'')\<rparr>
             None (Some [sample_monitor ''M1'' ''DISPLAY1''])
             (sim_world (sample_os [] 1 [121])) of
         Inl f \<Rightarrow> False
       | Inr (code, w4) \<Rightarrow>
           code = 0 \<and> sim_keys (os w4) = [121]
           \<and> changes w4 = [(''DISPLAY1'', new_devmode landscape_1080p DMDO_90)]
           \<and> errors w4 = [(''Failed to start revert timer'', [])])"
proof -
  let ?g = "\<lparr>g_dry_run = False, g_no_confirm = False, g_revert_seconds = 5\<rparr>"
  let ?args = "\<lparr>include_selectors = None, exclude_selectors = None,
                only_selector = Some (monitor_id_selector ''M1'')\<rparr>"
  let ?ms = "[sample_monitor ''M1'' ''DISPLAY1'']"
  let ?w = "sim_world (sample_os [] 1 [121])"
  let ?w1 = "sim_world (sample_os [] 0 [121])"
  let ?sels = "[monitor_id_selector ''M1'']"
  let ?batch = "rotate_monitors_filtered sim_api (Some ?ms) ROTATION_PORTRAIT
                  (if length ?sels > 0 then Some ?sels else None) (exclude_selectors ?args)
                  (g_dry_run ?g) ?w1"
  have secs: "g_revert_seconds ?g > 0"
    by simp
  have snap: "create_rollback_state sim_api (Some ?ms) ?w = (None, ?w1)"
    by code_simp
  have sels: "get_applicable_selectors ?args None = Inr (Some ?sels)"
    by (simp add: get_applicable_selectors_def)
  have batch: "?batch = (fst ?batch, snd ?batch)"
    by simp
  have ne: "?ms \<noteq> []"
    by simp
  note T = no_snapshot_no_revert [OF secs refl ne snap sels batch]
  have ev: "exit_code (fst ?batch) = 0 \<and> success_count (fst ?batch) > 0
      \<and> sim_keys (os (snd ?batch)) = [121]
      \<and> changes (snd ?batch) = [(''DISPLAY1'', new_devmode landscape_1080p DMDO_90)]
      \<and> errors (snd ?batch) = []"
    by code_simp
  show ?thesis
    using T ev secs snap sels by (simp split: sum.splits prod.splits)
qed

subsection \<open>Selector resolution of the rotation command\<close>

lemma star_selector_matches_no_monitor:
  "monitor_id m \<noteq> ''*'' \<Longrightarrow> \<not> should_process (Some [monitor_id_selector ''*'']) excl m"
  by (auto simp add: should_process_def matches_monitor_def monitor_id_selector_def
      split: option.split)

text \<open>
  Claim C1 fails on the code. Without \<^verbatim>\<open>--only\<close>, without \<^verbatim>\<open>--include\<close> and without a
  saved default selector, the include list handed to the batch is not empty: it holds
  the monitor id selector \<^verbatim>\<open>*\<close>, which matches no monitor \<^verbatim>\<open>M1\<close>, \<^verbatim>\<open>M2\<close>, ... So every
  monitor is filtered out, nothing is rotated and the exit code is 2.
\<close>

theorem no_selector_rotates_no_monitor:
  "get_applicable_selectors
     \<lparr>include_selectors = None, exclude_selectors = None, only_selector = None\<rparr>
     (Some \<lparr>default_selector = None, last_action = None\<rparr>)
   = Inr (Some [monitor_id_selector ''*''])
   \<and> (case handle_rotation_command sim_api
             \<lparr>g_dry_run = False, g_no_confirm = True, g_revert_seconds = 0\<rparr>
             ROTATION_PORTRAIT
             \<lparr>include_selectors = None, exclude_selectors = None, only_selector = None\<rparr>
             (Some \<lparr>default_selector = None, last_action = None\<rparr>)
             (Some sample_inventory) (sim_world (sample_os [] 0 [])) of
         Inl f \<Rightarrow> False
       | Inr (code, w') \<Rightarrow> code = 2 \<and> changes w' = [])"
  by code_simp

text \<open>
  Claim C3 fails on the code. With \<^verbatim>\<open>--include M1,M3\<close> the include list of the
  arguments holds both selectors, but the list applied to the batch is parsed again
  from the value of its first selector alone: the third monitor matches the include
  list and is filtered out, and only the first monitor is rotated.
\<close>

theorem include_list_applies_first_selector_only:
  "parse_selector_list (Some ''M1,M3'')
   = Inr (Some [monitor_id_selector ''M1'', monitor_id_selector ''M3''])
   \<and> get_applicable_selectors
       \<lparr>include_selectors = Some [monitor_id_selector ''M1'', monitor_id_selector ''M3''],
        exclude_selectors = None, only_selector = None\<rparr> None
     = Inr (Some [monitor_id_selector ''M1''])
   \<and> any_selector_matches [monitor_id_selector ''M1'', monitor_id_selector ''M3'']
       (sample_inventory ! 2)
   \<and> \<not> should_process (Some [monitor_id_selector ''M1'']) None (sample_inventory ! 2)
   \<and> (case handle_rotation_command sim_api
             \<lparr>g_dry_run = False, g_no_confirm = True, g_revert_seconds = 0\<rparr>
             ROTATION_PORTRAIT
             \<lparr>include_selectors = Some [monitor_id_selector ''M1'', monitor_id_selector ''M3''],
              exclude_selectors = None, only_selector = None\<rparr>
             None (Some sample_inventory) (sim_world (sample_os [] 0 [])) of
         Inl f \<Rightarrow> False
       | Inr (code, w') \<Rightarrow> map fst (changes w') = [''DISPLAY1''])"
  by code_simp

subsection \<open>Interactive confirmation\<close>

text \<open>The keys y and Y, and only they, confirm.\<close>

lemma prompt_confirmation_keys:
  "fst (prompt_confirmation api w) \<longleftrightarrow> fst (getch api (os w)) \<in> {121, 89}"
  by (auto simp add: prompt_confirmation_def tolower_key_def split: prod.split)

text \<open>
  Without a revert timer no snapshot is taken, so that the confirmation step changes
  no settings, whatever the key.
\<close>

lemma interactive_confirmation_restores_nothing:
  "\<not> g_revert_seconds g > 0 \<Longrightarrow>
   changes (confirm_or_revert api g None result w) = changes w"
  by (auto simp add: confirm_or_revert_def prompt_confirmation_def split: prod.split)

text \<open>
  Claim C2 fails on the code. Without a revert timer the command takes no snapshot
  before the batch, and a key other than y restores nothing: here the first monitor
  is rotated to portrait, the user answers n (the key 110), and the only change of
  settings is the rotation, which stays.
\<close>

theorem declined_confirmation_restores_nothing:
  "(case handle_rotation_command sim_api
           \<lparr>g_dry_run = False, g_no_confirm = False, g_revert_seconds = 0\<rparr>
           ROTATION_PORTRAIT
           \<lparr>include_selectors = None, exclude_selectors = None,
            only_selector = Some (monitor_id_selector ''M1'')\<rparr>
           None (Some sample_inventory) (sim_world (sample_os [] 0 [110])) of
       Inl f \<Rightarrow> False
     | Inr (code, w') \<Rightarrow>
         code = 0 \<and> sim_keys (os w') = []
         \<and> changes w' = [(''DISPLAY1'', new_devmode landscape_1080p DMDO_90)]
         \<and> map_of (sim_settings (os w')) ''DISPLAY1''
           = Some (new_devmode landscape_1080p DMDO_90))"
  by code_simp

subsection \<open>Parsing of selector lists\<close>

text \<open>
  \<^verbatim>\<open>parse_selector\<close> rejects exactly the \<^verbatim>\<open>device:"\<close> and \<^verbatim>\<open>name:"\<close> selectors without a
  closing quote.
\<close>

lemma parse_selector_None_iff:
  "parse_selector (Some s) = None \<longleftrightarrow>
     (str_starts_with s (''device:'' @ [CHR 0x22]) \<and> CHR 0x22 \<notin> set (drop 8 s))
     \<or> (str_starts_with s (''name:'' @ [CHR 0x22]) \<and> CHR 0x22 \<notin> set (drop 6 s))"
proof -
  have d: "\<not> (case s of c0 # c1 # _ \<Rightarrow> c0 = CHR ''M'' \<and> isdigit c1 | _ \<Rightarrow> False)"
    if "str_starts_with s (''device:'' @ [CHR 0x22])"
    using that by (cases s) (auto simp add: str_starts_with_def split: list.splits)
  have n: "\<not> (case s of c0 # c1 # _ \<Rightarrow> c0 = CHR ''M'' \<and> isdigit c1 | _ \<Rightarrow> False)"
    if "str_starts_with s (''name:'' @ [CHR 0x22])"
    using that by (cases s) (auto simp add: str_starts_with_def split: list.splits)
  have dn: "\<not> str_starts_with s (''device:'' @ [CHR 0x22])"
    if "str_starts_with s (''name:'' @ [CHR 0x22])"
    using that by (cases s) (auto simp add: str_starts_with_def)
  show ?thesis
    using d n dn
    by (auto simp add: parse_selector_def strrchr_def Let_def split: option.splits if_splits)
qed

lemma parse_parts_initialised:
  "None \<notin> set parts \<Longrightarrow>
   parse_parts parts =
     Inr (concat (map (\<lambda>part. case parse_selector part of None \<Rightarrow> [] | Some sel \<Rightarrow> [sel]) parts))"
proof (induction parts)
  case Nil
  show ?case by simp
next
  case (Cons p ps)
  then obtain s where p: "p = Some s"
    by (cases p) auto
  show ?case
    using Cons by (simp add: p split: option.split)
qed

text \<open>
  Every slot of the array of \<^verbatim>\<open>str_split\<close> is written when the text has more tokens than
  delimiters, that is when no field between two delimiters (or before the first, or
  after the last) is empty.
\<close>

lemma str_split_initialised_iff:
  "None \<notin> set (str_split text delim)
   \<longleftrightarrow> length (filter (\<lambda>c. c = delim) text) < length (strtok_all delim text)"
  by (auto simp add: str_split_def Let_def)

text \<open>
  The empty text has one slot and no token: the parser reads the slot, which was never
  written.
\<close>

lemma parse_selector_list_empty_list:
  "parse_selector_list (Some []) = Inl UninitialisedRead"
  by code_simp

text \<open>
  Claim C7, as the spec states it: a part with an unterminated quote and a part that
  is empty after trimming each make the parse of the list fail. The parse succeeds on
  both: the part with the unterminated quote is dropped, and the empty part becomes a
  monitor id selector with the empty value.
\<close>

theorem parse_selector_list_skips_bad_parts:
  "parse_selector_list (Some (''M1,name:'' @ [CHR 0x22] @ ''TV''))
     = Inr (Some [monitor_id_selector ''M1''])
   \<and> parse_selector_list (Some ''M1, ,M2'')
     = Inr (Some [monitor_id_selector ''M1'', monitor_id_selector [], monitor_id_selector ''M2''])"
  by code_simp

text \<open>
  Claim C7, amended. For a text whose parts are all written (no empty field between
  commas): \<^verbatim>\<open>parse_selector_list\<close> returns the selectors of the parts that
  \<^verbatim>\<open>parse_selector\<close> accepts, in order, and returns the error \<^verbatim>\<open>NULL\<close> if and only if
  \<^verbatim>\<open>parse_selector\<close> rejects every part; \<^verbatim>\<open>parse_selector\<close> rejects exactly the parts
  that start with \<^verbatim>\<open>device:"\<close> or \<^verbatim>\<open>name:"\<close> and have no closing quote; a part that is
  empty after trimming is accepted as a monitor id selector with the empty value.
\<close>

theorem parse_selector_list_lenient:
  assumes "None \<notin> set (str_split text (CHR '',''))"
  shows "parse_selector_list (Some text) =
           Inr (let sels = concat (map (\<lambda>part. case parse_selector part of
                                                None \<Rightarrow> [] | Some sel \<Rightarrow> [sel])
                                       (str_split text (CHR '','')))
                in if sels = [] then None else Some sels)
    \<and> (parse_selector_list (Some text) = Inr None
         \<longleftrightarrow> (\<forall>part\<in>set (str_split text (CHR '','')). parse_selector part = None))
    \<and> (\<forall>s. parse_selector (Some s) = None \<longleftrightarrow>
            (str_starts_with s (''device:'' @ [CHR 0x22]) \<and> CHR 0x22 \<notin> set (drop 8 s))
            \<or> (str_starts_with s (''name:'' @ [CHR 0x22]) \<and> CHR 0x22 \<notin> set (drop 6 s)))
    \<and> parse_selector (Some []) = Some \<lparr>sel_type = SELECTOR_TYPE_MONITOR_ID, sel_value = []\<rparr>"
proof (intro conjI allI)
  let ?parts = "str_split text (CHR '','')"
  let ?sels = "concat (map (\<lambda>part. case parse_selector part of
                                                None \<Rightarrow> [] | Some sel \<Rightarrow> [sel]) ?parts)"
  show eq: "parse_selector_list (Some text) =
           Inr (let sels = ?sels in if sels = [] then None else Some sels)"
    using assms by (simp add: parse_selector_list_def parse_parts_initialised Let_def)
  have "?sels = [] \<longleftrightarrow> (\<forall>part\<in>set ?parts. parse_selector part = None)"
    by (auto split: option.splits)
  then show "parse_selector_list (Some text) = Inr None
         \<longleftrightarrow> (\<forall>part\<in>set ?parts. parse_selector part = None)"
    unfolding eq by (simp add: Let_def)
next
  fix s
  show "parse_selector (Some s) = None \<longleftrightarrow>
            (str_starts_with s (''device:'' @ [CHR 0x22]) \<and> CHR 0x22 \<notin> set (drop 8 s))
            \<or> (str_starts_with s (''name:'' @ [CHR 0x22]) \<and> CHR 0x22 \<notin> set (drop 6 s))"
    by (rule parse_selector_None_iff)
next
  show "parse_selector (Some []) = Some \<lparr>sel_type = SELECTOR_TYPE_MONITOR_ID, sel_value = []\<rparr>"
    by (simp add: parse_selector_def str_starts_with_def)
qed

theorem parse_selector_list_lenient_witness:
  "None \<notin> set (str_split (''M1, ,name:'' @ [CHR 0x22] @ ''TV'') (CHR '',''))
   \<and> Some (''name:'' @ [CHR 0x22] @ ''TV'')
       \<in> set (str_split (''M1, ,name:'' @ [CHR 0x22] @ ''TV'') (CHR '',''))
   \<and> parse_selector (Some (''name:'' @ [CHR 0x22] @ ''TV'')) = None
   \<and> parse_selector_list (Some (''M1, ,name:'' @ [CHR 0x22] @ ''TV''))
     = Inr (Some [monitor_id_selector ''M1'', monitor_id_selector []])"
proof -
  let ?text = "''M1, ,name:'' @ [CHR 0x22] @ ''TV''"
  have parts: "str_split ?text (CHR '','')
      = [Some ''M1'', Some [], Some (''name:'' @ [CHR 0x22] @ ''TV'')]"
    by code_simp
  have init: "None \<notin> set (str_split ?text (CHR '',''))"
    unfolding parts by simp
  have mem: "Some (''name:'' @ [CHR 0x22] @ ''TV'') \<in> set (str_split ?text (CHR '',''))"
    unfolding parts by simp
  have bad: "parse_selector (Some (''name:'' @ [CHR 0x22] @ ''TV'')) = None"
    by code_simp
  have good: "parse_selector (Some ''M1'') = Some (monitor_id_selector ''M1'')"
    "parse_selector (Some []) = Some (monitor_id_selector [])"
    by code_simp+
  from parse_selector_list_lenient [OF init]
  have "parse_selector_list (Some ?text) =
           Inr (let sels = concat (map (\<lambda>part. case parse_selector part of
                                                None \<Rightarrow> [] | Some sel \<Rightarrow> [sel])
                                       (str_split ?text (CHR '','')))
                in if sels = [] then None else Some sels)"
    by (rule conjunct1)
  then have res: "parse_selector_list (Some ?text)
     = Inr (Some [monitor_id_selector ''M1'', monitor_id_selector []])"
    unfolding parts using bad good by simp
  from init mem bad res show ?thesis
    by (intro conjI)
qed

end
